theory Spec2Isabelle
  imports Complex_Main
begin

section \<open>Tempo-Strike: scoring, chart generation and the per-frame note loop\<close>

text \<open>
  A shallow embedding of the gameplay core of the Tempo-Strike rhythm game:
  \<^item> \<^verbatim>\<open>handleNoteHit\<close>, \<^verbatim>\<open>handleNoteMiss\<close> and \<^verbatim>\<open>endGame\<close> of the App component,
  \<^item> \<^verbatim>\<open>generateChart\<close> of constants.ts,
  \<^item> the spawning loop and the collision loop of the \<^verbatim>\<open>useFrame\<close> callback of GameScene.tsx.

  JavaScript numbers are modelled as exact reals (\<open>real\<close>): every comparison, sum and
  product of the source is taken over the reals, \<^verbatim>\<open>Math.round\<close> is rounding half up and
  \<^verbatim>\<open>Math.floor\<close> is the floor. Rendering, haptics, pop-ups and camera shake are left out;
  the callbacks the scene fires (\<^verbatim>\<open>onNoteHit\<close>, \<^verbatim>\<open>onNoteMiss\<close>, \<^verbatim>\<open>onSongEnd\<close>) are kept
  as an event log, and the timers the App sets (\<^verbatim>\<open>setTimeout\<close>) as a list of pending
  timeouts.
\<close>

subsection \<open>Enumerations and configuration tables\<close>

text \<open>
  Modelled from the spec: the declarations of types.ts (the enums ScoreTier, Difficulty,
  GameStatus and CutDirection, and the interfaces NoteData, ShopItem and HandPositions)
  are not among the sources. The members below are the ones the source files name:
  the seven tiers of the \<^verbatim>\<open>switch\<close> in \<^verbatim>\<open>handleNoteHit\<close>, the four difficulties of
  \<^verbatim>\<open>DIFFICULTY_CONFIG\<close>, the statuses the App sets, and the five cut directions of
  \<^verbatim>\<open>DIRECTION_VECTORS\<close>.
\<close>

datatype ScoreTier = PERFECT | GREAT | GOOD | OK | BAD | WRONG_SABER | GOLD_STAR

datatype Difficulty = EASY | MEDIUM | HARD | IMPOSSIBLE

datatype GameStatus = LOADING | IDLE | PLAYING | GAME_OVER | VICTORY

datatype CutDirection = UP | DOWN | LEFT | RIGHT | ANY

datatype HandType = LeftHand | RightHand

record Perks =
  scoreMult :: real
  coinMult :: real
  hitWindow :: real

record ShopItem =
  item_id :: string
  item_name :: string
  price :: real
  perks :: Perks

record DifficultyConfig =
  label :: string
  speed :: real
  noteColorScale :: real
  healthDrain :: real
  healthGain :: real
  scoreMultiplier :: real

fun DIFFICULTY_CONFIG :: "Difficulty \<Rightarrow> DifficultyConfig" where
  "DIFFICULTY_CONFIG EASY =
     \<lparr>label = ''CHILL'', speed = 10, noteColorScale = 8/10,
      healthDrain = 8, healthGain = 6, scoreMultiplier = 8/10\<rparr>"
| "DIFFICULTY_CONFIG MEDIUM =
     \<lparr>label = ''CRUISING'', speed = 14, noteColorScale = 1,
      healthDrain = 12, healthGain = 4, scoreMultiplier = 1\<rparr>"
| "DIFFICULTY_CONFIG HARD =
     \<lparr>label = ''OVERDRIVE'', speed = 18, noteColorScale = 12/10,
      healthDrain = 18, healthGain = 3, scoreMultiplier = 15/10\<rparr>"
| "DIFFICULTY_CONFIG IMPOSSIBLE =
     \<lparr>label = ''DEATH WISH'', speed = 38, noteColorScale = 15/10,
      healthDrain = 51, healthGain = 2/10, scoreMultiplier = 8\<rparr>"

definition shop_item :: "string \<Rightarrow> string \<Rightarrow> real \<Rightarrow> real \<Rightarrow> real \<Rightarrow> real \<Rightarrow> ShopItem" where
  "shop_item i n p sm cm hw =
     \<lparr>item_id = i, item_name = n, price = p,
      perks = \<lparr>scoreMult = sm, coinMult = cm, hitWindow = hw\<rparr>\<rparr>"

text \<open>The shop catalogue of constants.ts (the descriptions are presentation only).\<close>

definition SABER_CATALOG :: "ShopItem list" where
  "SABER_CATALOG =
    [shop_item ''default'' ''Standard Issue'' 0 1 1 1,
     shop_item ''pixel'' ''8-Bit Blade'' 250 (11/10) 1 1,
     shop_item ''rapier'' ''Duelist Foil'' 800 (13/10) 1 (8/10),
     shop_item ''midas'' ''Midas Grip'' 1200 1 (15/10) 1,
     shop_item ''broadsword'' ''Heavy Titan'' 1500 1 (8/10) (14/10),
     shop_item ''viper'' ''Viper Fang'' 1800 (135/100) 1 (85/100),
     shop_item ''skeleton'' ''Bone Harvester'' 2500 (11/10) (13/10) (11/10),
     shop_item ''plasma'' ''Plasma Cutter'' 3000 (125/100) (125/100) (11/10),
     shop_item ''bass'' ''Bass Edge'' 3500 (9/10) (11/10) (13/10),
     shop_item ''glitch'' ''Data Corruptor'' 4500 (14/10) (11/10) (9/10),
     shop_item ''katana'' ''Neon Katana'' 5000 (16/10) (11/10) (95/100),
     shop_item ''crystal'' ''Prism Shard'' 6000 (13/10) (14/10) 1,
     shop_item ''scythe'' ''Cyber Scythe'' 6500 (15/10) (13/10) 1,
     shop_item ''nature'' ''Verdant Keeper'' 8500 (12/10) (16/10) (12/10),
     shop_item ''mecha'' ''Mecha Striker'' 10000 (15/10) 1 (13/10),
     shop_item ''storm'' ''Thunder Caller'' 12000 (16/10) (12/10) 1,
     shop_item ''inferno'' ''Hellfire'' 14000 (17/10) 1 (11/10),
     shop_item ''void'' ''Void Eater'' 16500 (18/10) (11/10) (9/10),
     shop_item ''celestial'' ''Star Forged'' 20000 2 (15/10) (11/10),
     shop_item ''neon'' ''Synthwave X'' 25000 (22/10) 2 (12/10),
     shop_item ''ultimate_eudin'' ''Ultimate Admin Saber'' 99999 3 3 6]"

text \<open>
  \<^verbatim>\<open>SABER_CATALOG.find(s => s.id === equippedSaberId) || SABER_CATALOG[0]\<close>
\<close>

definition equippedItem :: "string \<Rightarrow> ShopItem" where
  "equippedItem equippedSaberId =
     (case find (\<lambda>s. item_id s = equippedSaberId) SABER_CATALOG of
        Some s \<Rightarrow> s
      | None \<Rightarrow> hd SABER_CATALOG)"

subsection \<open>Session state of the App component\<close>

text \<open>
  The state cells of the App that the gameplay handlers write, together with the
  timeouts they have set and that have not run yet. A functional state update
  \<^verbatim>\<open>setX(x => f(x))\<close> receives the latest value of the cell, so a handler that is the
  only callback of its frame is a function from the state before the call to the state
  after the next render; the cells a handler reads through its closure
  (the \<^verbatim>\<open>multiplier\<close>, \<^verbatim>\<open>equippedItem\<close> and \<^verbatim>\<open>diffConfig\<close> dependencies of
  \<^verbatim>\<open>useCallback\<close>) are arguments of the handler.
\<close>

datatype timeout = EndGameTimeout bool | DamageAnimTimeout

record game =
  gameStatus :: GameStatus
  score :: real
  combo :: int
  multiplier :: real
  health :: real
  coins :: real
  xp :: real
  damageAnim :: bool
  audioPaused :: bool
  timeouts :: "timeout list"

definition Math_round :: "real \<Rightarrow> real" where
  "Math_round v = of_int \<lfloor>v + 1/2\<rfloor>"

text \<open>The \<^verbatim>\<open>switch\<close> of base rewards: (points, coinReward, healthBonus).\<close>

fun base_rewards :: "DifficultyConfig \<Rightarrow> ScoreTier \<Rightarrow> real \<times> real \<times> real" where
  "base_rewards diffConfig PERFECT = (150, 15, healthGain diffConfig)"
| "base_rewards diffConfig GREAT = (100, 10, healthGain diffConfig * (8/10))"
| "base_rewards diffConfig GOOD = (70, 5, healthGain diffConfig * (5/10))"
| "base_rewards diffConfig OK = (40, 2, healthGain diffConfig * (2/10))"
| "base_rewards diffConfig BAD = (10, 1, 0)"
| "base_rewards diffConfig WRONG_SABER = (0, 0, -5)"
| "base_rewards diffConfig GOLD_STAR = (1000, 150, 50)"

text \<open>
  The rewards after the block ``Apply Perks and Difficulty Multipliers (only if points > 0)'':
  (points, coinReward, healthBonus).
\<close>

definition rewards :: "ShopItem \<Rightarrow> DifficultyConfig \<Rightarrow> ScoreTier \<Rightarrow> real \<times> real \<times> real" where
  "rewards item diffConfig tier =
     (case base_rewards diffConfig tier of (points, coinReward, healthBonus) \<Rightarrow>
        if points > 0 then
          (let diffMult = scoreMultiplier diffConfig in
             (Math_round (points * scoreMult (perks item) * diffMult),
              Math_round (coinReward * coinMult (perks item) * diffMult),
              healthBonus))
        else (points, coinReward, healthBonus))"

text \<open>
  The combo logic of \<^verbatim>\<open>handleNoteHit\<close>: a tier other than BAD and WRONG\_SABER increments
  the combo and sets the multiplier from the new combo; BAD and WRONG\_SABER take five off
  the combo (not below 0), halve the multiplier (not below 1) and start the damage
  animation, which a 200 ms timeout ends.
\<close>

definition combo_logic :: "ScoreTier \<Rightarrow> game \<Rightarrow> game" where
  "combo_logic tier g =
     (if tier \<noteq> BAD \<and> tier \<noteq> WRONG_SABER then
        (let newCombo = combo g + 1 in
           g\<lparr>combo := newCombo,
             multiplier := (if newCombo > 30 then 8
                            else if newCombo > 20 then 4
                            else if newCombo > 10 then 2
                            else 1)\<rparr>)
      else
        g\<lparr>combo := max 0 (combo g - 5),
          multiplier := max 1 (multiplier g / 2),
          damageAnim := True,
          timeouts := timeouts g @ [DamageAnimTimeout]\<rparr>)"

text \<open>
  \<^verbatim>\<open>handleNoteHit\<close>. The first argument is the \<^verbatim>\<open>multiplier\<close> the callback closed over
  when it was created (the value of the cell at the last render).
\<close>

definition handleNoteHit ::
  "real \<Rightarrow> ShopItem \<Rightarrow> DifficultyConfig \<Rightarrow> ScoreTier \<Rightarrow> game \<Rightarrow> game" where
  "handleNoteHit closedMultiplier item diffConfig tier g =
     (case rewards item diffConfig tier of (points, coinReward, healthBonus) \<Rightarrow>
        (let g1 = combo_logic tier g in
           g1\<lparr>score := score g1 + points * closedMultiplier,
              health := min 100 (max 0 (health g1 + healthBonus)),
              coins := coins g1 + coinReward,
              xp := xp g1 + points / 5\<rparr>))"

text \<open>
  The callback as the scene receives it after a render: \<^verbatim>\<open>useCallback\<close> lists
  \<^verbatim>\<open>multiplier\<close> among its dependencies, so the closed-over value is the cell's value
  at that render.
\<close>

definition onNoteHit :: "ShopItem \<Rightarrow> DifficultyConfig \<Rightarrow> ScoreTier \<Rightarrow> game \<Rightarrow> game" where
  "onNoteHit item diffConfig tier g = handleNoteHit (multiplier g) item diffConfig tier g"

definition endGame :: "bool \<Rightarrow> game \<Rightarrow> game" where
  "endGame victory g =
     g\<lparr>gameStatus := (if victory then VICTORY else GAME_OVER), audioPaused := True\<rparr>"

text \<open>
  \<^verbatim>\<open>handleNoteMiss\<close>: the health update returns 0 and sets a zero-delay timeout for
  \<^verbatim>\<open>endGame(false)\<close> when the drained health is not positive.
\<close>

definition handleNoteMiss :: "DifficultyConfig \<Rightarrow> game \<Rightarrow> game" where
  "handleNoteMiss diffConfig g =
     (let g1 = g\<lparr>combo := 0, multiplier := 1, damageAnim := True,
                 timeouts := timeouts g @ [DamageAnimTimeout]\<rparr>;
          newHealth = health g1 - healthDrain diffConfig
      in if newHealth \<le> 0
         then g1\<lparr>health := 0, timeouts := timeouts g1 @ [EndGameTimeout False]\<rparr>
         else g1\<lparr>health := newHealth\<rparr>)"

text \<open>Running one pending timeout, and all of them in the order they were set (the two
  kinds of timeout write different cells, so the order between them does not matter).\<close>

fun run_timeout :: "timeout \<Rightarrow> game \<Rightarrow> game" where
  "run_timeout (EndGameTimeout victory) g = endGame victory g"
| "run_timeout DamageAnimTimeout g = g\<lparr>damageAnim := False\<rparr>"

definition run_timeouts :: "game \<Rightarrow> game" where
  "run_timeouts g = fold run_timeout (timeouts g) (g\<lparr>timeouts := []\<rparr>)"

text \<open>\<^verbatim>\<open>startGame\<close> resets the gameplay cells.\<close>

definition startGame :: "game \<Rightarrow> game" where
  "startGame g =
     g\<lparr>gameStatus := PLAYING, score := 0, combo := 0, multiplier := 1, health := 100,
       audioPaused := False\<rparr>"

definition initial_game :: game where
  "initial_game =
     \<lparr>gameStatus = LOADING, score = 0, combo = 0, multiplier = 1, health = 100,
      coins = 0, xp = 0, damageAnim = False, audioPaused = True, timeouts = []\<rparr>"

subsection \<open>Callbacks of the scene, delivered to the App\<close>

text \<open>
  The scene reports a resolution through its props \<^verbatim>\<open>onNoteHit(note, tier)\<close>,
  \<^verbatim>\<open>onNoteMiss(note)\<close> and \<^verbatim>\<open>onSongEnd()\<close>. A note is named by its index in the
  chart array. All callbacks fired inside one frame are the ones the scene received at
  the last render, so every hit of that frame is scored with the same closed-over
  multiplier; the timeouts run after the frame.
\<close>

datatype event = NoteHit nat ScoreTier | NoteMiss nat | SongEnd

text \<open>One callback that is alone in its frame.\<close>

fun deliver :: "real \<Rightarrow> ShopItem \<Rightarrow> DifficultyConfig \<Rightarrow> event \<Rightarrow> game \<Rightarrow> game" where
  "deliver closedMultiplier item diffConfig (NoteHit r tier) g =
     handleNoteHit closedMultiplier item diffConfig tier g"
| "deliver closedMultiplier item diffConfig (NoteMiss r) g = handleNoteMiss diffConfig g"
| "deliver closedMultiplier item diffConfig SongEnd g = endGame True g"

text \<open>
  Several callbacks may fire inside one frame. A \<^verbatim>\<open>setX\<close> call made by a handler does not
  write its cell: it appends an update to the queue of the cell, and the queues run at the
  next render, cell by cell in the order of the \<^verbatim>\<open>useState\<close> calls of the App (score,
  combo, multiplier, health, damageAnim, coins, xp). Of a handler's own body only
  \<^verbatim>\<open>setTimeout\<close> and \<^verbatim>\<open>pause()\<close> take effect during the call. An updater function
  therefore runs at the render: the \<^verbatim>\<open>setMultiplier\<close> call inside the combo updater of a
  hit joins the queue of the multiplier behind every update that the handlers of the frame
  have queued, and the \<^verbatim>\<open>setTimeout\<close> inside the health updater of a miss is set after
  every timeout of the handlers' bodies.
\<close>

datatype update =
    ScoreAdd real
  | ComboIncrement
  | ComboPenalty
  | ComboSet int
  | MultiplierSet real
  | MultiplierHalve
  | HealthAdd real
  | HealthDrain real
  | DamageAnimSet bool
  | CoinsAdd real
  | XpAdd real
  | GameStatusSet GameStatus

record batch =
  queued :: "update list"
  timersSet :: "timeout list"
  pauseCalled :: bool

definition empty_batch :: batch where
  "empty_batch = \<lparr>queued = [], timersSet = [], pauseCalled = False\<rparr>"

text \<open>What a call of each handler queues, in the order of its statements.\<close>

definition queue_handleNoteHit ::
  "real \<Rightarrow> ShopItem \<Rightarrow> DifficultyConfig \<Rightarrow> ScoreTier \<Rightarrow> batch \<Rightarrow> batch" where
  "queue_handleNoteHit closedMultiplier item diffConfig tier b =
     (case rewards item diffConfig tier of (points, coinReward, healthBonus) \<Rightarrow>
        (let b1 = (if tier \<noteq> BAD \<and> tier \<noteq> WRONG_SABER then
                     b\<lparr>queued := queued b @ [ComboIncrement]\<rparr>
                   else
                     b\<lparr>queued := queued b @ [ComboPenalty, MultiplierHalve, DamageAnimSet True],
                       timersSet := timersSet b @ [DamageAnimTimeout]\<rparr>)
         in b1\<lparr>queued := queued b1 @ [ScoreAdd (points * closedMultiplier),
                                       HealthAdd healthBonus,
                                       CoinsAdd coinReward,
                                       XpAdd (points / 5)]\<rparr>))"

definition queue_endGame :: "bool \<Rightarrow> batch \<Rightarrow> batch" where
  "queue_endGame victory b =
     b\<lparr>queued := queued b @ [GameStatusSet (if victory then VICTORY else GAME_OVER)],
       pauseCalled := True\<rparr>"

definition queue_handleNoteMiss :: "DifficultyConfig \<Rightarrow> batch \<Rightarrow> batch" where
  "queue_handleNoteMiss diffConfig b =
     b\<lparr>queued := queued b @ [ComboSet 0, MultiplierSet 1, DamageAnimSet True,
                              HealthDrain (healthDrain diffConfig)],
       timersSet := timersSet b @ [DamageAnimTimeout]\<rparr>"

fun queue_event :: "real \<Rightarrow> ShopItem \<Rightarrow> DifficultyConfig \<Rightarrow> event \<Rightarrow> batch \<Rightarrow> batch" where
  "queue_event closedMultiplier item diffConfig (NoteHit r tier) b =
     queue_handleNoteHit closedMultiplier item diffConfig tier b"
| "queue_event closedMultiplier item diffConfig (NoteMiss r) b = queue_handleNoteMiss diffConfig b"
| "queue_event closedMultiplier item diffConfig SongEnd b = queue_endGame True b"

text \<open>
  Running the queue of one cell. The combo updater of a hit returns, beside the new combo,
  the \<^verbatim>\<open>setMultiplier\<close> call it makes; the health updater of a miss returns, beside the new
  health, the timeout it sets.
\<close>

fun run_score :: "update \<Rightarrow> real \<Rightarrow> real" where
  "run_score (ScoreAdd v) s = s + v"
| "run_score _ s = s"

fun run_combo :: "update \<Rightarrow> int \<times> update list \<Rightarrow> int \<times> update list" where
  "run_combo ComboIncrement (c, sets) =
     (let newCombo = c + 1 in
        (newCombo, sets @ [MultiplierSet (if newCombo > 30 then 8
                                          else if newCombo > 20 then 4
                                          else if newCombo > 10 then 2
                                          else 1)]))"
| "run_combo ComboPenalty (c, sets) = (max 0 (c - 5), sets)"
| "run_combo (ComboSet v) (c, sets) = (v, sets)"
| "run_combo _ (c, sets) = (c, sets)"

fun run_multiplier :: "update \<Rightarrow> real \<Rightarrow> real" where
  "run_multiplier (MultiplierSet v) prev = v"
| "run_multiplier MultiplierHalve prev = max 1 (prev / 2)"
| "run_multiplier _ prev = prev"

fun run_health :: "update \<Rightarrow> real \<times> timeout list \<Rightarrow> real \<times> timeout list" where
  "run_health (HealthAdd healthBonus) (h, timers) = (min 100 (max 0 (h + healthBonus)), timers)"
| "run_health (HealthDrain drain) (h, timers) =
     (let newHealth = h - drain in
        if newHealth \<le> 0 then (0, timers @ [EndGameTimeout False]) else (newHealth, timers))"
| "run_health _ (h, timers) = (h, timers)"

fun run_damageAnim :: "update \<Rightarrow> bool \<Rightarrow> bool" where
  "run_damageAnim (DamageAnimSet v) d = v"
| "run_damageAnim _ d = d"

fun run_coins :: "update \<Rightarrow> real \<Rightarrow> real" where
  "run_coins (CoinsAdd v) c = c + v"
| "run_coins _ c = c"

fun run_xp :: "update \<Rightarrow> real \<Rightarrow> real" where
  "run_xp (XpAdd v) x = x + v"
| "run_xp _ x = x"

fun run_gameStatus :: "update \<Rightarrow> GameStatus \<Rightarrow> GameStatus" where
  "run_gameStatus (GameStatusSet v) st = v"
| "run_gameStatus _ st = st"

text \<open>
  The render after the frame: the combo queue runs before the multiplier queue, which by
  then holds the \<^verbatim>\<open>setMultiplier\<close> calls of the combo updaters behind the updates of the
  handlers; the timeouts of the health updaters come after those of the handlers.
\<close>

definition render :: "batch \<Rightarrow> game \<Rightarrow> game" where
  "render b g =
     (case fold run_combo (queued b) (combo g, []) of (newCombo, renderSets) \<Rightarrow>
      case fold run_health (queued b) (health g, []) of (newHealth, renderTimers) \<Rightarrow>
        g\<lparr>gameStatus := fold run_gameStatus (queued b) (gameStatus g),
          score := fold run_score (queued b) (score g),
          combo := newCombo,
          multiplier := fold run_multiplier (queued b @ renderSets) (multiplier g),
          health := newHealth,
          coins := fold run_coins (queued b) (coins g),
          xp := fold run_xp (queued b) (xp g),
          damageAnim := fold run_damageAnim (queued b) (damageAnim g),
          audioPaused := (audioPaused g \<or> pauseCalled b),
          timeouts := timeouts g @ timersSet b @ renderTimers\<rparr>)"

text \<open>
  One frame: every callback is the one of the last render, closed over the multiplier of
  that render; the handlers queue their updates, and the render runs them.
\<close>

definition deliver_frame :: "ShopItem \<Rightarrow> DifficultyConfig \<Rightarrow> event list \<Rightarrow> game \<Rightarrow> game" where
  "deliver_frame item diffConfig evs g =
     render (fold (queue_event (multiplier g) item diffConfig) evs empty_batch) g"

text \<open>
  A play-through as the App sees it: one list of callbacks per frame, the pending timeouts
  running after each frame.
\<close>

definition play :: "ShopItem \<Rightarrow> DifficultyConfig \<Rightarrow> event list list \<Rightarrow> game \<Rightarrow> game" where
  "play item diffConfig frames g =
     fold (\<lambda>evs g. run_timeouts (deliver_frame item diffConfig evs g)) frames g"

definition fresh_game :: game where
  "fresh_game = startGame initial_game"

text \<open>A session on CRUISING with the standard saber after eight missed notes.\<close>

definition low_health_game :: game where
  "low_health_game =
     play (equippedItem ''default'') (DIFFICULTY_CONFIG MEDIUM) (replicate 8 [NoteMiss 0]) fresh_game"

text \<open>A session whose next hit raises the combo from 10 to 11.\<close>

definition combo_ten_game :: game where
  "combo_ten_game = fresh_game\<lparr>combo := 10, multiplier := 1\<rparr>"

subsection \<open>Notes and the chart generator\<close>

text \<open>
  A note of the chart. The resolution fields \<^verbatim>\<open>hit\<close>, \<^verbatim>\<open>missed\<close> and \<^verbatim>\<open>hitTime\<close> are
  optional in the source and absent (falsy, undefined) on a generated note: \<open>False\<close>,
  \<open>False\<close> and \<open>None\<close> here. The field \<^verbatim>\<open>type\<close> is \<open>note_type\<close>, \<^verbatim>\<open>id\<close> is \<open>note_id\<close>.
\<close>

record NoteData =
  note_id :: string
  time :: real
  lineIndex :: int
  lineLayer :: int
  note_type :: HandType
  cutDirection :: CutDirection
  isGoldStar :: bool
  hit :: bool
  missed :: bool
  hitTime :: "real option"

definition SONG_BPM :: real where
  "SONG_BPM = 140"

definition BEAT_TIME :: real where
  "BEAT_TIME = 60 / SONG_BPM"

text \<open>The decimal digits of a template literal \<^verbatim>\<open>${idCount++}\<close>.\<close>

fun string_of_nat :: "nat \<Rightarrow> string" where
  "string_of_nat n =
     (if n < 10 then [''0123456789'' ! n]
      else string_of_nat (n div 10) @ [''0123456789'' ! (n mod 10)])"

declare string_of_nat.simps [simp del]

text \<open>
  The local variables of \<^verbatim>\<open>generateChart\<close> (the array \<^verbatim>\<open>notes\<close> is \<open>note_list\<close>), and the number of calls of
  \<^verbatim>\<open>Math.random()\<close> made so far. The outcomes of the random choices are a parameter
  \<open>rand\<close>: the \<open>k\<close>-th call returns \<open>rand k\<close>.
\<close>

record gen =
  note_list :: "NoteData list"
  idCount :: nat
  generatedNoteCount :: nat
  randomCalls :: nat

definition Math_random :: "(nat \<Rightarrow> real) \<Rightarrow> gen \<Rightarrow> real \<times> gen" where
  "Math_random rand g = (rand (randomCalls g), g\<lparr>randomCalls := randomCalls g + 1\<rparr>)"

text \<open>\<^verbatim>\<open>notes.push({ id: `prefix${idCount++}`, ... })\<close>\<close>

definition push_note ::
  "string \<Rightarrow> real \<Rightarrow> int \<Rightarrow> int \<Rightarrow> HandType \<Rightarrow> CutDirection \<Rightarrow> bool \<Rightarrow> gen \<Rightarrow> gen" where
  "push_note prefix t li ll ty cd gold g =
     g\<lparr>note_list := note_list g @
          [\<lparr>note_id = prefix @ string_of_nat (idCount g), time = t, lineIndex = li,
            lineLayer = ll, note_type = ty, cutDirection = cd, isGoldStar = gold,
            hit = False, missed = False, hitTime = None\<rparr>],
       idCount := idCount g + 1\<rparr>"

fun skipRate :: "Difficulty \<Rightarrow> real" where
  "skipRate EASY = 5/10"
| "skipRate MEDIUM = 2/10"
| "skipRate HARD = 5/100"
| "skipRate IMPOSSIBLE = 0"

fun doubleRate :: "Difficulty \<Rightarrow> real" where
  "doubleRate EASY = 5/100"
| "doubleRate MEDIUM = 15/100"
| "doubleRate HARD = 3/10"
| "doubleRate IMPOSSIBLE = 9/10"

text \<open>One sub-beat note of the block ``IMPOSSIBLE EXCLUSIVE'', pushed with the given
  probability; the first sub-beat draws its hand, the other two have a fixed one.\<close>

definition sub_beat ::
  "(nat \<Rightarrow> real) \<Rightarrow> real \<Rightarrow> string \<Rightarrow> real \<Rightarrow> HandType option \<Rightarrow> gen \<Rightarrow> gen" where
  "sub_beat rand chance prefix t fixedHand g =
     (case Math_random rand g of (r, g1) \<Rightarrow>
        if r < chance then
          (case Math_random rand g1 of (a, g2) \<Rightarrow>
           case Math_random rand g2 of (b, g3) \<Rightarrow>
             (case fixedHand of
                Some ty \<Rightarrow> push_note prefix t \<lfloor>a * 4\<rfloor> \<lfloor>b * 3\<rfloor> ty ANY False g3
              | None \<Rightarrow>
                  (case Math_random rand g3 of (c, g4) \<Rightarrow>
                     push_note prefix t \<lfloor>a * 4\<rfloor> \<lfloor>b * 3\<rfloor>
                       (if c > 5/10 then LeftHand else RightHand) ANY False g4)))
        else g1)"

definition sub_beats :: "(nat \<Rightarrow> real) \<Rightarrow> real \<Rightarrow> gen \<Rightarrow> gen" where
  "sub_beats rand t g =
     sub_beat rand (4/10) ''note-sub-3-'' (t + BEAT_TIME * (75/100)) (Some RightHand)
       (sub_beat rand (4/10) ''note-sub-2-'' (t + BEAT_TIME * (25/100)) (Some LeftHand)
          (sub_beat rand (9/10) ''note-sub-1-'' (t + BEAT_TIME / 2) None g))"

text \<open>The gold star pushed when the counter is a multiple of 50.\<close>

definition gold_star :: "(nat \<Rightarrow> real) \<Rightarrow> real \<Rightarrow> gen \<Rightarrow> gen" where
  "gold_star rand t g =
     (case Math_random rand g of (r, g1) \<Rightarrow>
        push_note ''gold-'' t (if r > 5/10 then 1 else 2) 1 LeftHand ANY True g1)"

text \<open>The rest of the loop body: the easy pattern, then the phases of the other
  difficulties.\<close>

definition phase_notes :: "(nat \<Rightarrow> real) \<Rightarrow> Difficulty \<Rightarrow> nat \<Rightarrow> real \<Rightarrow> gen \<Rightarrow> gen" where
  "phase_notes rand difficulty i t g =
     (let phase = (i div 16) mod 4 in
      if difficulty = EASY then
        (if i mod 2 \<noteq> 0 then g
         else (let isLeft = (i mod 4 = 0) in
                 push_note ''note-'' t (if isLeft then 1 else 2) 0
                   (if isLeft then LeftHand else RightHand) ANY False g))
      else if phase = 0 \<or> phase = 2 then
        (let isLeft = (i mod 2 = 0) in
         case Math_random rand g of (r, g1) \<Rightarrow>
           push_note ''note-'' t (if isLeft then 1 else 2) 0
             (if isLeft then LeftHand else RightHand) (if r > 5/10 then DOWN else ANY) False g1)
      else if phase = 1 then
        (if difficulty = HARD \<or> difficulty = IMPOSSIBLE \<or> i mod 2 = 0 then
           (let isLeft = (i mod 2 = 0) in
              push_note ''note-'' t (if isLeft then 0 else 3) 0
                (if isLeft then LeftHand else RightHand) DOWN False g)
         else g)
      else
        (case Math_random rand g of (r, g1) \<Rightarrow>
           if r < doubleRate difficulty then
             push_note ''note-'' t 2 1 RightHand RIGHT False
               (push_note ''note-'' t 1 1 LeftHand LEFT False g1)
           else
             (case Math_random rand g1 of (a, g2) \<Rightarrow>
              case Math_random rand g2 of (b, g3) \<Rightarrow>
                (let isLeft = (a > 5/10) in
                   push_note ''note-'' t (if isLeft then 2 else 1) (if b > 6/10 then 1 else 0)
                     (if isLeft then LeftHand else RightHand) ANY False g3))))"

text \<open>The body of \<^verbatim>\<open>for (let i = 4; i < 300; i += 1)\<close>; a \<^verbatim>\<open>continue\<close> ends the body.\<close>

definition beat :: "(nat \<Rightarrow> real) \<Rightarrow> Difficulty \<Rightarrow> nat \<Rightarrow> gen \<Rightarrow> gen" where
  "beat rand difficulty i g =
     (let t = real i * BEAT_TIME in
      case Math_random rand g of (r, g1) \<Rightarrow>
        if r < skipRate difficulty then g1
        else
          (let g2 = (if difficulty = IMPOSSIBLE then sub_beats rand t g1 else g1);
               g3 = g2\<lparr>generatedNoteCount := generatedNoteCount g2 + 1\<rparr>
           in if generatedNoteCount g3 mod 50 = 0 then gold_star rand t g3
              else phase_notes rand difficulty i t g3))"

text \<open>The notes in the order they are pushed.\<close>

definition initial_gen :: gen where
  "initial_gen = \<lparr>note_list = [], idCount = 0, generatedNoteCount = 0, randomCalls = 0\<rparr>"

definition emitted :: "(nat \<Rightarrow> real) \<Rightarrow> Difficulty \<Rightarrow> NoteData list" where
  "emitted rand difficulty = note_list (fold (beat rand difficulty) [4..<300] initial_gen)"

text \<open>
  \<^verbatim>\<open>return notes.sort((a, b) => a.time - b.time)\<close>: the array sort is stable, and
  so is \<open>sort_key\<close>.
\<close>

definition generateChart :: "(nat \<Rightarrow> real) \<Rightarrow> Difficulty \<Rightarrow> NoteData list" where
  "generateChart rand difficulty = sort_key time (emitted rand difficulty)"

subsection \<open>The scene: spawning and the collision loop of \<^verbatim>\<open>useFrame\<close>\<close>

definition SPAWN_Z :: real where "SPAWN_Z = -30"
definition PLAYER_Z :: real where "PLAYER_Z = 0"
definition MISS_Z :: real where "MISS_Z = 5"
definition LANE_WIDTH :: real where "LANE_WIDTH = 8/10"

definition LANE_X_POSITIONS :: "real list" where
  "LANE_X_POSITIONS =
     [- (15/10) * LANE_WIDTH, - (5/10) * LANE_WIDTH, (5/10) * LANE_WIDTH, (15/10) * LANE_WIDTH]"

definition LAYER_Y_POSITIONS :: "real list" where
  "LAYER_Y_POSITIONS = [8/10, 16/10, 24/10]"

text \<open>Reading an array at a number: outside the array the result is \<^verbatim>\<open>undefined\<close>.\<close>

definition array_get :: "'a list \<Rightarrow> int \<Rightarrow> 'a option" where
  "array_get xs i = (if 0 \<le> i \<and> i < int (length xs) then Some (xs ! nat i) else None)"

record Vector3 =
  vec_x :: real
  vec_y :: real
  vec_z :: real

definition vec_length :: "Vector3 \<Rightarrow> real" where
  "vec_length v = sqrt ((vec_x v)\<^sup>2 + (vec_y v)\<^sup>2 + (vec_z v)\<^sup>2)"

text \<open>\<^verbatim>\<open>normalize()\<close> of three.js divides by \<^verbatim>\<open>length() || 1\<close>.\<close>

definition vec_normalize :: "Vector3 \<Rightarrow> Vector3" where
  "vec_normalize v =
     (let l = (if vec_length v = 0 then 1 else vec_length v)
      in \<lparr>vec_x = vec_x v / l, vec_y = vec_y v / l, vec_z = vec_z v / l\<rparr>)"

definition vec_dot :: "Vector3 \<Rightarrow> Vector3 \<Rightarrow> real" where
  "vec_dot a b = vec_x a * vec_x b + vec_y a * vec_y b + vec_z a * vec_z b"

fun DIRECTION_VECTORS :: "CutDirection \<Rightarrow> Vector3" where
  "DIRECTION_VECTORS UP = \<lparr>vec_x = 0, vec_y = 1, vec_z = 0\<rparr>"
| "DIRECTION_VECTORS DOWN = \<lparr>vec_x = 0, vec_y = -1, vec_z = 0\<rparr>"
| "DIRECTION_VECTORS LEFT = \<lparr>vec_x = -1, vec_y = 0, vec_z = 0\<rparr>"
| "DIRECTION_VECTORS RIGHT = \<lparr>vec_x = 1, vec_y = 0, vec_z = 0\<rparr>"
| "DIRECTION_VECTORS ANY = \<lparr>vec_x = 0, vec_y = 0, vec_z = 0\<rparr>"

text \<open>The hand state the tracking hook publishes: a position that is null while the hand
  is not detected, and a velocity.\<close>

record HandPositions =
  hand_left :: "Vector3 option"
  hand_right :: "Vector3 option"
  leftVelocity :: Vector3
  rightVelocity :: Vector3

text \<open>The props of the scene that the frame callback reads.\<close>

record SceneProps =
  sceneStatus :: GameStatus
  noteSpeed :: real
  equippedSaber :: ShopItem

text \<open>The audio element, as far as the frame callback reads it.\<close>

record AudioElement =
  audioTime :: real
  ended :: bool

text \<open>
  The mutable state of the scene. The note objects live in the chart array
  \<^verbatim>\<open>notesState\<close>; \<^verbatim>\<open>activeNotesRef.current\<close> holds references to the same objects, here
  their indices in the chart array, so that setting \<^verbatim>\<open>note.hit\<close> through the active
  list is an update of the chart array. \<open>events\<close> is the log of the callbacks fired.
  (\<^verbatim>\<open>setCurrentTime\<close> only feeds the rendering and is left out.)
\<close>

record scene =
  notesState :: "NoteData list"
  activeNotes :: "nat list"
  nextNoteIndex :: nat
  events :: "event list"

text \<open>The effect that runs when the status becomes PLAYING.\<close>

definition start_scene :: "NoteData list \<Rightarrow> scene" where
  "start_scene chart = \<lparr>notesState = chart, activeNotes = [], nextNoteIndex = 0, events = []\<rparr>"

text \<open>
  \<^verbatim>\<open>nextNote.time - spawnAheadTime <= time\<close> with
  \<^verbatim>\<open>spawnAheadTime = Math.abs(SPAWN_Z - PLAYER_Z) / noteSpeed\<close>. A speed of 0 makes the
  lead time infinite in JavaScript and the test true.
\<close>

definition spawn_due :: "real \<Rightarrow> real \<Rightarrow> NoteData \<Rightarrow> bool" where
  "spawn_due spd t nextNote =
     (if spd = 0 then True else time nextNote - \<bar>SPAWN_Z - PLAYER_Z\<bar> / spd \<le> t)"

function spawn_loop :: "real \<Rightarrow> real \<Rightarrow> scene \<Rightarrow> scene" where
  "spawn_loop spd t s =
     (if nextNoteIndex s < length (notesState s) then
        (if spawn_due spd t (notesState s ! nextNoteIndex s) then
           spawn_loop spd t
             (s\<lparr>activeNotes := activeNotes s @ [nextNoteIndex s],
                nextNoteIndex := nextNoteIndex s + 1\<rparr>)
         else s)
      else s)"
  by pat_completeness auto
termination
  by (relation "measure (\<lambda>(spd, t, s). length (notesState s) - nextNoteIndex s)") auto

declare spawn_loop.simps [simp del]

text \<open>\<^verbatim>\<open>activeNotesRef.current.splice(i, 1)\<close>\<close>

definition splice1 :: "nat \<Rightarrow> 'a list \<Rightarrow> 'a list" where
  "splice1 i xs = take i xs @ drop (Suc i) xs"

text \<open>The locals \<^verbatim>\<open>currentZ\<close>, \<^verbatim>\<open>zWindow\<close> and \<^verbatim>\<open>hitRadius\<close> of the loop body, and the
  test of the hit window.\<close>

definition currentZ :: "SceneProps \<Rightarrow> real \<Rightarrow> NoteData \<Rightarrow> real" where
  "currentZ p t note = PLAYER_Z - ((time note - t) * noteSpeed p)"

definition zWindow :: "SceneProps \<Rightarrow> real" where
  "zWindow p = (25/10) * hitWindow (perks (equippedSaber p))"

definition hitRadius :: "SceneProps \<Rightarrow> real" where
  "hitRadius p = (12/10) * hitWindow (perks (equippedSaber p))"

definition in_hit_window :: "SceneProps \<Rightarrow> real \<Rightarrow> NoteData \<Rightarrow> bool" where
  "in_hit_window p t note =
     (currentZ p t note > PLAYER_Z - zWindow p
      \<and> currentZ p t note < PLAYER_Z + (zWindow p * (5/10)))"

text \<open>The hand that must cut the note and the other one.\<close>

definition correctHandPos :: "HandPositions \<Rightarrow> NoteData \<Rightarrow> Vector3 option" where
  "correctHandPos hands note =
     (if note_type note = LeftHand then hand_left hands else hand_right hands)"

definition wrongHandPos :: "HandPositions \<Rightarrow> NoteData \<Rightarrow> Vector3 option" where
  "wrongHandPos hands note =
     (if note_type note = LeftHand then hand_right hands else hand_left hands)"

text \<open>
  The distance of a hand to the note in the lane/layer plane, and whether it is below
  the hit radius. A null hand position never is; a lane or layer outside its table makes
  the distance NaN and the comparison false.
\<close>

definition distXY :: "Vector3 \<Rightarrow> real \<Rightarrow> real \<Rightarrow> real" where
  "distXY handPos nx ny = sqrt ((vec_x handPos - nx)\<^sup>2 + (vec_y handPos - ny)\<^sup>2)"

definition hand_distance :: "Vector3 option \<Rightarrow> NoteData \<Rightarrow> real option" where
  "hand_distance handPos note =
     (case handPos of
        None \<Rightarrow> None
      | Some h \<Rightarrow>
          (case array_get LANE_X_POSITIONS (lineIndex note) of
             None \<Rightarrow> None
           | Some nx \<Rightarrow>
               (case array_get LAYER_Y_POSITIONS (lineLayer note) of
                  None \<Rightarrow> None
                | Some ny \<Rightarrow> Some (distXY h nx ny))))"

definition within_radius :: "Vector3 option \<Rightarrow> NoteData \<Rightarrow> real \<Rightarrow> bool" where
  "within_radius handPos note radius =
     (case hand_distance handPos note of None \<Rightarrow> False | Some d \<Rightarrow> d < radius)"

text \<open>The tier of a cut by the correct hand (the block ``NORMAL LOGIC''); the source's
  locals \<^verbatim>\<open>speed\<close> and \<^verbatim>\<open>distXY\<close> are \<open>swing\<close> and \<open>dXY\<close> here. The block runs only
  when the correct hand is within the radius, so its distance is defined.\<close>

definition cut_tier :: "SceneProps \<Rightarrow> HandPositions \<Rightarrow> NoteData \<Rightarrow> ScoreTier" where
  "cut_tier p hands note =
     (let handVel = (if note_type note = LeftHand then leftVelocity hands else rightVelocity hands);
          dXY = (case hand_distance (correctHandPos hands note) note of Some d \<Rightarrow> d | None \<Rightarrow> 0);
          swing = vec_length handVel;
          precision = max 0 (1 - dXY / hitRadius p);
          angleScore = (if cutDirection note \<noteq> ANY
                        then vec_dot (vec_normalize handVel) (DIRECTION_VECTORS (cutDirection note))
                        else 1);
          isUltimate = (item_id (equippedSaber p) = ''ultimate_eudin'')
      in if isUltimate then PERFECT
         else if swing < 3/10 then BAD
         else if cutDirection note \<noteq> ANY \<and> angleScore < - (2/10) then BAD
         else if precision > 7/10 \<and> swing > 2 \<and> angleScore > 5/10 then PERFECT
         else if precision > 5/10 \<and> swing > 1 then GREAT
         else if precision > 3/10 then GOOD
         else OK)"

text \<open>
  \<^verbatim>\<open>note.missed = true; handleMiss(note); activeNotesRef.current.splice(i, 1)\<close> and
  \<^verbatim>\<open>note.hit = true; note.hitTime = time; handleHit(note, tier); splice(i, 1)\<close>,
  for the note with reference \<open>r\<close> at position \<open>i\<close> of the active list.
\<close>

definition resolve_miss :: "nat \<Rightarrow> nat \<Rightarrow> scene \<Rightarrow> scene" where
  "resolve_miss r i s =
     s\<lparr>notesState := (notesState s)[r := (notesState s ! r)\<lparr>missed := True\<rparr>],
       events := events s @ [NoteMiss r],
       activeNotes := splice1 i (activeNotes s)\<rparr>"

definition resolve_hit :: "nat \<Rightarrow> nat \<Rightarrow> real \<Rightarrow> ScoreTier \<Rightarrow> scene \<Rightarrow> scene" where
  "resolve_hit r i t tier s =
     s\<lparr>notesState := (notesState s)[r := (notesState s ! r)\<lparr>hit := True, hitTime := Some t\<rparr>],
       events := events s @ [NoteHit r tier],
       activeNotes := splice1 i (activeNotes s)\<rparr>"

text \<open>The body of the collision loop for position \<open>i\<close> of the active list.\<close>

definition note_step :: "SceneProps \<Rightarrow> real \<Rightarrow> HandPositions \<Rightarrow> nat \<Rightarrow> scene \<Rightarrow> scene" where
  "note_step p t hands i s =
     (let r = activeNotes s ! i;
          note = notesState s ! r
      in if hit note \<or> missed note then s
         else if currentZ p t note > MISS_Z then resolve_miss r i s
         else if in_hit_window p t note then
           (let hitCorrect = within_radius (correctHandPos hands note) note (hitRadius p);
                hitWrong = (\<not> hitCorrect
                            \<and> within_radius (wrongHandPos hands note) note (hitRadius p))
            in if isGoldStar note then
                 (if hitCorrect \<or> hitWrong then resolve_hit r i t GOLD_STAR s else s)
               else if hitCorrect then resolve_hit r i t (cut_tier p hands note) s
               else if hitWrong then resolve_hit r i t WRONG_SABER s
               else s)
         else s)"

text \<open>\<^verbatim>\<open>for (let i = activeNotesRef.current.length - 1; i >= 0; i--)\<close>: \<open>note_loop p t hands n\<close>
  runs the body for the positions \<open>n - 1\<close> down to 0.\<close>

fun note_loop :: "SceneProps \<Rightarrow> real \<Rightarrow> HandPositions \<Rightarrow> nat \<Rightarrow> scene \<Rightarrow> scene" where
  "note_loop p t hands 0 s = s"
| "note_loop p t hands (Suc i) s = note_loop p t hands i (note_step p t hands i s)"

text \<open>
  The gameplay part of the frame callback: nothing happens unless the status is PLAYING
  and the audio element exists; the end of the song fires \<^verbatim>\<open>onSongEnd\<close>; otherwise the
  due notes are spawned and the collision loop runs over the active list from its last
  position to its first. The time is \<^verbatim>\<open>audioRef.current?.currentTime || 0\<close>.
\<close>

definition useFrame :: "SceneProps \<Rightarrow> AudioElement option \<Rightarrow> HandPositions \<Rightarrow> scene \<Rightarrow> scene" where
  "useFrame p audio hands s =
     (case audio of
        None \<Rightarrow> s
      | Some a \<Rightarrow>
          if sceneStatus p \<noteq> PLAYING then s
          else if ended a then s\<lparr>events := events s @ [SongEnd]\<rparr>
          else
            (let s2 = spawn_loop (noteSpeed p) (audioTime a) s
             in note_loop p (audioTime a) hands (length (activeNotes s2)) s2))"

text \<open>A run of frames, each with the props of the render before it (the note speed grows
  with the player's level during a session), the audio element and the hand state it
  reads.\<close>

fun run_frames :: "(SceneProps \<times> AudioElement option \<times> HandPositions) list \<Rightarrow> scene \<Rightarrow> scene" where
  "run_frames [] s = s"
| "run_frames ((p, audio, hands) # fs) s = run_frames fs (useFrame p audio hands s)"

text \<open>The active list the collision loop of a frame runs over: the notes active before
  the frame and the notes the frame spawns.\<close>

definition active_in_frame :: "SceneProps \<Rightarrow> AudioElement \<Rightarrow> scene \<Rightarrow> nat list" where
  "active_in_frame p a s = activeNotes (spawn_loop (noteSpeed p) (audioTime a) s)"

text \<open>The note a callback is about.\<close>

fun event_note :: "event \<Rightarrow> nat option" where
  "event_note (NoteHit r tier) = Some r"
| "event_note (NoteMiss r) = Some r"
| "event_note SongEnd = None"

subsection \<open>The verdict of the loop body on one note\<close>

text \<open>
  What the loop body decides for an unresolved note depends on the note, the time and the
  hands only. \<open>judge\<close> collects the decision of \<open>note_step\<close>, \<open>settle\<close> is the change of
  the note object and \<open>verdict_events\<close> the callback; \<open>note_step_judge\<close> below proves that
  the loop body is the three of them.
\<close>

datatype verdict = Stay | Missed | HitAs ScoreTier

definition judge :: "SceneProps \<Rightarrow> real \<Rightarrow> HandPositions \<Rightarrow> NoteData \<Rightarrow> verdict" where
  "judge p t hands note =
     (if currentZ p t note > MISS_Z then Missed
      else if in_hit_window p t note then
        (let hitCorrect = within_radius (correctHandPos hands note) note (hitRadius p);
             hitWrong = (\<not> hitCorrect
                         \<and> within_radius (wrongHandPos hands note) note (hitRadius p))
         in if isGoldStar note then (if hitCorrect \<or> hitWrong then HitAs GOLD_STAR else Stay)
            else if hitCorrect then HitAs (cut_tier p hands note)
            else if hitWrong then HitAs WRONG_SABER
            else Stay)
      else Stay)"

fun settle :: "real \<Rightarrow> verdict \<Rightarrow> NoteData \<Rightarrow> NoteData" where
  "settle t Stay note = note"
| "settle t Missed note = note\<lparr>missed := True\<rparr>"
| "settle t (HitAs tier) note = note\<lparr>hit := True, hitTime := Some t\<rparr>"

fun verdict_events :: "nat \<Rightarrow> verdict \<Rightarrow> event list" where
  "verdict_events r Stay = []"
| "verdict_events r Missed = [NoteMiss r]"
| "verdict_events r (HitAs tier) = [NoteHit r tier]"

subsection \<open>Concrete scenes\<close>

text \<open>
  A one-note chart with its note already active, the note being a left-hand note, a
  right-hand note's mirror or a gold star on lane 1 of the low layer with target time 1;
  a hand \<open>at_note\<close> exactly on the note's lane and layer, at rest.
\<close>

definition left_note :: NoteData where
  "left_note =
     \<lparr>note_id = ''note-0'', time = 1, lineIndex = 1, lineLayer = 0, note_type = LeftHand,
      cutDirection = ANY, isGoldStar = False, hit = False, missed = False, hitTime = None\<rparr>"

definition gold_note :: NoteData where
  "gold_note = left_note\<lparr>note_id := ''gold-0'', isGoldStar := True\<rparr>"

definition scene_of :: "NoteData \<Rightarrow> scene" where
  "scene_of note = \<lparr>notesState = [note], activeNotes = [0], nextNoteIndex = 1, events = []\<rparr>"

definition at_note :: Vector3 where
  "at_note = \<lparr>vec_x = - (4/10), vec_y = 8/10, vec_z = 0\<rparr>"

definition at_rest :: Vector3 where
  "at_rest = \<lparr>vec_x = 0, vec_y = 0, vec_z = 0\<rparr>"

definition right_hand_only :: HandPositions where
  "right_hand_only =
     \<lparr>hand_left = None, hand_right = Some at_note, leftVelocity = at_rest, rightVelocity = at_rest\<rparr>"

definition both_hands :: HandPositions where
  "both_hands =
     \<lparr>hand_left = Some at_note, hand_right = Some at_note,
      leftVelocity = at_rest, rightVelocity = at_rest\<rparr>"

definition playing_with :: "string \<Rightarrow> SceneProps" where
  "playing_with saberId =
     \<lparr>sceneStatus = PLAYING, noteSpeed = 14, equippedSaber = equippedItem saberId\<rparr>"

definition audio_at :: "real \<Rightarrow> AudioElement" where
  "audio_at t = \<lparr>audioTime = t, ended = False\<rparr>"

text \<open>The flags of a note are consistent: not both \<open>hit\<close> and \<open>missed\<close>, and \<open>hitTime\<close>
  is set exactly when \<open>hit\<close> is.\<close>

definition consistent :: "NoteData \<Rightarrow> bool" where
  "consistent note = (\<not> (hit note \<and> missed note) \<and> hit note = (hitTime note \<noteq> None))"

section \<open>Properties\<close>

subsection \<open>Scoring and session state\<close>

lemma item_default: "equippedItem ''default'' = shop_item ''default'' ''Standard Issue'' 0 1 1 1"
  by (simp add: equippedItem_def SABER_CATALOG_def shop_item_def)

lemma item_celestial:
  "equippedItem ''celestial'' = shop_item ''celestial'' ''Star Forged'' 20000 2 (15/10) (11/10)"
  by (simp add: equippedItem_def SABER_CATALOG_def shop_item_def)

lemma combo_logic_other_fields:
  "score (combo_logic tier g) = score g" "health (combo_logic tier g) = health g"
  "coins (combo_logic tier g) = coins g" "xp (combo_logic tier g) = xp g"
  "gameStatus (combo_logic tier g) = gameStatus g"
  by (simp_all add: combo_logic_def Let_def)

text \<open>
  A frame with one callback: running the queues at the render gives the state that the
  handler gives as a function of the state.
\<close>

lemma render_hit:
  "render (queue_handleNoteHit m item diffConfig tier empty_batch) g
     = handleNoteHit m item diffConfig tier g"
  by (cases "rewards item diffConfig tier")
    (simp add: render_def queue_handleNoteHit_def empty_batch_def handleNoteHit_def
      combo_logic_def Let_def)

lemma render_miss:
  "render (queue_handleNoteMiss diffConfig empty_batch) g = handleNoteMiss diffConfig g"
  by (simp add: render_def queue_handleNoteMiss_def empty_batch_def handleNoteMiss_def Let_def)

lemma render_end:
  "render (queue_endGame victory empty_batch) g = endGame victory g"
  by (simp add: render_def queue_endGame_def empty_batch_def endGame_def)

lemma deliver_frame_single:
  "deliver_frame item diffConfig [ev] g = deliver (multiplier g) item diffConfig ev g"
  by (cases ev) (simp_all add: deliver_frame_def render_hit render_miss render_end)

text \<open>
  A hit and a miss in one frame at combo 10: the miss resets the combo behind the hit's
  increment, and the hit's \<^verbatim>\<open>setMultiplier(2)\<close>, made by the combo updater at the render,
  comes behind the \<^verbatim>\<open>setMultiplier(1)\<close> of the miss.
\<close>

lemma frame_hit_then_miss:
  "combo (deliver_frame (equippedItem ''default'') (DIFFICULTY_CONFIG MEDIUM)
            [NoteHit 0 PERFECT, NoteMiss 1] combo_ten_game) = 0"
  "multiplier (deliver_frame (equippedItem ''default'') (DIFFICULTY_CONFIG MEDIUM)
            [NoteHit 0 PERFECT, NoteMiss 1] combo_ten_game) = 2"
  by (simp_all add: deliver_frame_def render_def queue_handleNoteHit_def
      queue_handleNoteMiss_def empty_batch_def rewards_def combo_ten_game_def fresh_game_def
      startGame_def initial_game_def Let_def split: prod.splits)

lemma low_health_game_eq: "low_health_game = fresh_game\<lparr>health := 4\<rparr>"
  by (simp add: low_health_game_def play_def fresh_game_def startGame_def initial_game_def
      deliver_frame_single handleNoteMiss_def run_timeouts_def Let_def eval_nat_numeral)

text \<open>
  A miss that drains the health to 0 or below sets the health to 0 and defers the failure:
  it sets one zero-delay timeout for \<^verbatim>\<open>endGame(false)\<close> and leaves the status alone; the
  timeout, when it runs, ends the session.
\<close>

lemma handleNoteMiss_defers_failure:
  assumes "health g - healthDrain diffConfig \<le> 0"
  shows "health (handleNoteMiss diffConfig g) = 0"
    and "timeouts (handleNoteMiss diffConfig g)
           = timeouts g @ [DamageAnimTimeout, EndGameTimeout False]"
    and "gameStatus (handleNoteMiss diffConfig g) = gameStatus g"
    and "gameStatus (run_timeouts (handleNoteMiss diffConfig g)) = GAME_OVER"
  using assms by (simp_all add: handleNoteMiss_def run_timeouts_def endGame_def Let_def)

text \<open>No hit of any tier sets the timeout that ends the session, and none changes the status.\<close>

lemma handleNoteHit_sets_no_failure:
  "gameStatus (handleNoteHit m item diffConfig tier g) = gameStatus g"
  "EndGameTimeout v \<in> set (timeouts (handleNoteHit m item diffConfig tier g))
     \<Longrightarrow> EndGameTimeout v \<in> set (timeouts g)"
  by (auto simp: handleNoteHit_def combo_logic_def Let_def split: prod.splits if_splits)

text \<open>
  C1 (the code at the failing input). Health reaching 0 is meant to end the session in
  failure, once, through a deferred call. \<^verbatim>\<open>handleNoteMiss\<close> sets the zero-delay timeout
  for \<^verbatim>\<open>endGame(false)\<close>; \<^verbatim>\<open>handleNoteHit\<close> clamps the health at 0 and sets none. After
  eight misses on CRUISING the health is 4; a WRONG\_SABER hit then takes it to 0, the only
  pending timeout is the one of the damage animation, and the session is still PLAYING
  after the timeouts have run. Two misses delivered in one frame at that health each set
  their own \<^verbatim>\<open>endGame(false)\<close> timeout, at the render, behind the two timeouts of the
  damage animation.
\<close>

theorem C1_wrong_saber_to_zero_health_sets_no_failure:
  "health (deliver_frame (equippedItem ''default'') (DIFFICULTY_CONFIG MEDIUM)
             [NoteHit 8 WRONG_SABER] low_health_game) = 0
   \<and> timeouts (deliver_frame (equippedItem ''default'') (DIFFICULTY_CONFIG MEDIUM)
             [NoteHit 8 WRONG_SABER] low_health_game) = [DamageAnimTimeout]
   \<and> gameStatus (run_timeouts (deliver_frame (equippedItem ''default'') (DIFFICULTY_CONFIG MEDIUM)
             [NoteHit 8 WRONG_SABER] low_health_game)) = PLAYING
   \<and> timeouts (deliver_frame (equippedItem ''default'') (DIFFICULTY_CONFIG MEDIUM)
             [NoteMiss 8, NoteMiss 9] low_health_game)
       = [DamageAnimTimeout, DamageAnimTimeout, EndGameTimeout False, EndGameTimeout False]"
  by (simp add: low_health_game_eq fresh_game_def startGame_def initial_game_def
      deliver_frame_def render_def queue_handleNoteHit_def queue_handleNoteMiss_def
      empty_batch_def rewards_def run_timeouts_def Let_def)

text \<open>
  C2, as stated, fails: the claim has the tiers BAD and WRONG\_SABER never scaled by the
  perk and difficulty multipliers. The guard of the scaling block is \<^verbatim>\<open>points > 0\<close>, and
  BAD has 10 base points and 1 base coin: with the Star Forged saber (score 2.0, coins 1.5)
  on DEATH WISH (8.0) a BAD hit adds 160 points and 12 coins.
\<close>

theorem C2_bad_tier_is_scaled:
  "score (handleNoteHit 1 (equippedItem ''celestial'') (DIFFICULTY_CONFIG IMPOSSIBLE) BAD fresh_game)
     = score fresh_game + 160
   \<and> coins (handleNoteHit 1 (equippedItem ''celestial'') (DIFFICULTY_CONFIG IMPOSSIBLE) BAD fresh_game)
     = coins fresh_game + 12
   \<and> base_rewards (DIFFICULTY_CONFIG IMPOSSIBLE) BAD = (10, 1, 0)"
  by (simp add: handleNoteHit_def rewards_def item_celestial shop_item_def Math_round_def
      combo_logic_other_fields Let_def)

text \<open>
  C2, amended. For every tier other than WRONG\_SABER (all of them have positive base
  points, BAD included) a hit adds to the score the rounded product of the base points,
  the saber's \<open>scoreMult\<close> and the difficulty's \<open>scoreMultiplier\<close>, times the combo
  multiplier the callback closed over, and adds to the coins the rounded product of the
  base coins, the saber's \<open>coinMult\<close> and the difficulty's \<open>scoreMultiplier\<close>. A
  WRONG\_SABER hit, whose base points are 0, leaves score and coins as they are.
\<close>

theorem C2_scaling_guard_is_positive_points:
  "(base_rewards diffConfig tier = (p, c, h) \<and> tier \<noteq> WRONG_SABER \<longrightarrow>
      score (handleNoteHit m item diffConfig tier g)
        = score g + Math_round (p * scoreMult (perks item) * scoreMultiplier diffConfig) * m
      \<and> coins (handleNoteHit m item diffConfig tier g)
        = coins g + Math_round (c * coinMult (perks item) * scoreMultiplier diffConfig))
   \<and> (tier = WRONG_SABER \<longrightarrow>
      score (handleNoteHit m item diffConfig tier g) = score g
      \<and> coins (handleNoteHit m item diffConfig tier g) = coins g)"
  by (cases tier) (auto simp: handleNoteHit_def rewards_def combo_logic_other_fields Let_def)

theorem C2_scaling_guard_is_positive_points_witness:
  "(base_rewards (DIFFICULTY_CONFIG IMPOSSIBLE) BAD = (10, 1, 0) \<and> BAD \<noteq> WRONG_SABER)
   \<and> score (handleNoteHit 1 (equippedItem ''celestial'') (DIFFICULTY_CONFIG IMPOSSIBLE) BAD fresh_game)
       = 160
   \<and> coins (handleNoteHit 1 (equippedItem ''celestial'') (DIFFICULTY_CONFIG IMPOSSIBLE) BAD fresh_game)
       = 12
   \<and> score (handleNoteHit 1 (equippedItem ''celestial'') (DIFFICULTY_CONFIG IMPOSSIBLE) WRONG_SABER fresh_game)
       = 0
   \<and> coins (handleNoteHit 1 (equippedItem ''celestial'') (DIFFICULTY_CONFIG IMPOSSIBLE) WRONG_SABER fresh_game)
       = 0"
proof -
  have b: "base_rewards (DIFFICULTY_CONFIG IMPOSSIBLE) BAD = (10, 1, 0) \<and> BAD \<noteq> WRONG_SABER"
    by simp
  have s: "score fresh_game = 0" "coins fresh_game = 0"
    by (simp_all add: fresh_game_def startGame_def initial_game_def)
  have r: "Math_round (10 * scoreMult (perks (equippedItem ''celestial'')) * 8) = 160"
    "Math_round (1 * coinMult (perks (equippedItem ''celestial'')) * 8) = 12"
    by (simp_all add: item_celestial shop_item_def Math_round_def)
  from C2_scaling_guard_is_positive_points
    [of "DIFFICULTY_CONFIG IMPOSSIBLE" BAD 10 1 0 1 "equippedItem ''celestial''" fresh_game]
    C2_scaling_guard_is_positive_points
    [of "DIFFICULTY_CONFIG IMPOSSIBLE" WRONG_SABER 0 0 "-5" 1 "equippedItem ''celestial''" fresh_game]
    b s r
  show ?thesis by simp
qed

text \<open>
  C6. A hit of any tier other than BAD and WRONG\_SABER raises the combo by one and sets the
  multiplier from the raised combo: 1 up to a combo of 10, 2 from 11 to 20, 4 from 21 to
  30, 8 from 31 on. The combos 10, 20 and 30 themselves stay on the lower step.
\<close>

theorem C6_multiplier_steps:
  assumes "tier \<noteq> BAD" and "tier \<noteq> WRONG_SABER"
  shows "combo (handleNoteHit m item diffConfig tier g) = combo g + 1
    \<and> (combo g + 1 \<le> 10 \<longrightarrow> multiplier (handleNoteHit m item diffConfig tier g) = 1)
    \<and> (10 < combo g + 1 \<and> combo g + 1 \<le> 20 \<longrightarrow> multiplier (handleNoteHit m item diffConfig tier g) = 2)
    \<and> (20 < combo g + 1 \<and> combo g + 1 \<le> 30 \<longrightarrow> multiplier (handleNoteHit m item diffConfig tier g) = 4)
    \<and> (30 < combo g + 1 \<longrightarrow> multiplier (handleNoteHit m item diffConfig tier g) = 8)"
  using assms
  by (simp add: handleNoteHit_def combo_logic_def Let_def split: prod.splits)

theorem C6_multiplier_steps_witness:
  "PERFECT \<noteq> BAD \<and> PERFECT \<noteq> WRONG_SABER
   \<and> multiplier (handleNoteHit 1 (equippedItem ''default'') (DIFFICULTY_CONFIG MEDIUM) PERFECT
        (fresh_game\<lparr>combo := 9\<rparr>)) = 1
   \<and> multiplier (handleNoteHit 1 (equippedItem ''default'') (DIFFICULTY_CONFIG MEDIUM) PERFECT
        (fresh_game\<lparr>combo := 10\<rparr>)) = 2
   \<and> multiplier (handleNoteHit 2 (equippedItem ''default'') (DIFFICULTY_CONFIG MEDIUM) PERFECT
        (fresh_game\<lparr>combo := 19\<rparr>)) = 2
   \<and> multiplier (handleNoteHit 2 (equippedItem ''default'') (DIFFICULTY_CONFIG MEDIUM) PERFECT
        (fresh_game\<lparr>combo := 20\<rparr>)) = 4
   \<and> multiplier (handleNoteHit 4 (equippedItem ''default'') (DIFFICULTY_CONFIG MEDIUM) PERFECT
        (fresh_game\<lparr>combo := 29\<rparr>)) = 4
   \<and> multiplier (handleNoteHit 4 (equippedItem ''default'') (DIFFICULTY_CONFIG MEDIUM) PERFECT
        (fresh_game\<lparr>combo := 30\<rparr>)) = 8"
proof -
  have t: "PERFECT \<noteq> BAD" "PERFECT \<noteq> WRONG_SABER" by simp_all
  note w = C6_multiplier_steps [OF t, of _ "equippedItem ''default''" "DIFFICULTY_CONFIG MEDIUM"]
  from w [of 1 "fresh_game\<lparr>combo := 9\<rparr>"] w [of 1 "fresh_game\<lparr>combo := 10\<rparr>"]
       w [of 2 "fresh_game\<lparr>combo := 19\<rparr>"] w [of 2 "fresh_game\<lparr>combo := 20\<rparr>"]
       w [of 4 "fresh_game\<lparr>combo := 29\<rparr>"] w [of 4 "fresh_game\<lparr>combo := 30\<rparr>"]
  show ?thesis by simp
qed

text \<open>
  C10. The score grows by the hit's points times the multiplier the callback closed over,
  whatever the hit does to the multiplier cell; with the callback of the last render that
  is the multiplier before the hit. The witness is the hit that raises the combo from 10
  to 11: it is scored at 1x although it leaves the multiplier at 2, and the next hit is
  scored at 2x.
\<close>

theorem C10_score_uses_multiplier_before_update:
  "score (handleNoteHit m item diffConfig tier g)
     = score g + fst (rewards item diffConfig tier) * m
   \<and> score (onNoteHit item diffConfig tier g)
     = score g + fst (rewards item diffConfig tier) * multiplier g"
  by (simp add: onNoteHit_def handleNoteHit_def combo_logic_other_fields Let_def split: prod.splits)

lemma rewards_default_medium_PERFECT:
  "rewards (equippedItem ''default'') (DIFFICULTY_CONFIG MEDIUM) PERFECT = (150, 15, 4)"
  by (simp add: rewards_def item_default shop_item_def Math_round_def)

lemma step_up_hit:
  "onNoteHit (equippedItem ''default'') (DIFFICULTY_CONFIG MEDIUM) PERFECT combo_ten_game
    = fresh_game\<lparr>combo := 11, multiplier := 2, score := 150, health := 100, coins := 15, xp := 30\<rparr>"
  by (simp add: onNoteHit_def handleNoteHit_def rewards_default_medium_PERFECT combo_logic_def
      combo_ten_game_def fresh_game_def startGame_def initial_game_def Let_def
      del: DIFFICULTY_CONFIG.simps)

theorem C10_score_uses_multiplier_before_update_witness:
  "multiplier combo_ten_game = 1
   \<and> multiplier (onNoteHit (equippedItem ''default'') (DIFFICULTY_CONFIG MEDIUM) PERFECT combo_ten_game) = 2
   \<and> score (onNoteHit (equippedItem ''default'') (DIFFICULTY_CONFIG MEDIUM) PERFECT combo_ten_game)
       = score combo_ten_game + 150 * 1
   \<and> score (onNoteHit (equippedItem ''default'') (DIFFICULTY_CONFIG MEDIUM) PERFECT
        (onNoteHit (equippedItem ''default'') (DIFFICULTY_CONFIG MEDIUM) PERFECT combo_ten_game))
       = score (onNoteHit (equippedItem ''default'') (DIFFICULTY_CONFIG MEDIUM) PERFECT combo_ten_game)
         + 150 * 2"
proof -
  note w = C10_score_uses_multiplier_before_update
    [of _ "equippedItem ''default''" "DIFFICULTY_CONFIG MEDIUM" PERFECT]
  have m: "multiplier combo_ten_game = 1"
    "multiplier (onNoteHit (equippedItem ''default'') (DIFFICULTY_CONFIG MEDIUM) PERFECT combo_ten_game) = 2"
    by (simp_all add: step_up_hit del: DIFFICULTY_CONFIG.simps) (simp add: combo_ten_game_def)
  from w [of 1 combo_ten_game]
    w [of 1 "onNoteHit (equippedItem ''default'') (DIFFICULTY_CONFIG MEDIUM) PERFECT combo_ten_game"]
    m rewards_default_medium_PERFECT
  show ?thesis by (simp del: DIFFICULTY_CONFIG.simps)
qed

subsection \<open>The chart generator\<close>

text \<open>
  A beat only appends to the array, and the notes it appends are fresh: neither flag is
  set and there is no \<open>hitTime\<close>. Below IMPOSSIBLE every note beat \<open>i\<close> appends has the
  time of that beat, so the notes are pushed in time order and the final sort returns the
  array as it is.
\<close>

lemma sub_beat_appends:
  "\<exists>ys. note_list (sub_beat rand ch pre t fh g) = note_list g @ ys
     \<and> (\<forall>n\<in>set ys. \<not> hit n \<and> \<not> missed n \<and> hitTime n = None)"
  by (auto simp: sub_beat_def push_note_def Math_random_def split: prod.splits option.splits)

lemma sub_beats_appends:
  "\<exists>ys. note_list (sub_beats rand t g) = note_list g @ ys
     \<and> (\<forall>n\<in>set ys. \<not> hit n \<and> \<not> missed n \<and> hitTime n = None)"
proof -
  let ?g1 = "sub_beat rand (9/10) ''note-sub-1-'' (t + BEAT_TIME / 2) None g"
  let ?g2 = "sub_beat rand (4/10) ''note-sub-2-'' (t + BEAT_TIME * (25/100)) (Some LeftHand) ?g1"
  obtain xs where xs: "note_list ?g1 = note_list g @ xs"
    "\<forall>n\<in>set xs. \<not> hit n \<and> \<not> missed n \<and> hitTime n = None"
    using sub_beat_appends by blast
  obtain ys where ys: "note_list ?g2 = note_list ?g1 @ ys"
    "\<forall>n\<in>set ys. \<not> hit n \<and> \<not> missed n \<and> hitTime n = None"
    using sub_beat_appends by blast
  obtain zs where zs: "note_list (sub_beats rand t g) = note_list ?g2 @ zs"
    "\<forall>n\<in>set zs. \<not> hit n \<and> \<not> missed n \<and> hitTime n = None"
    unfolding sub_beats_def using sub_beat_appends by blast
  have "note_list (sub_beats rand t g) = note_list g @ (xs @ ys @ zs)"
    using xs ys zs by simp
  moreover have "\<forall>n\<in>set (xs @ ys @ zs). \<not> hit n \<and> \<not> missed n \<and> hitTime n = None"
    using xs ys zs by auto
  ultimately show ?thesis by blast
qed

lemma gold_star_appends:
  "\<exists>ys. note_list (gold_star rand t g) = note_list g @ ys
     \<and> (\<forall>n\<in>set ys. time n = t \<and> \<not> hit n \<and> \<not> missed n \<and> hitTime n = None)"
  by (auto simp: gold_star_def push_note_def Math_random_def split: prod.splits)

lemma phase_notes_appends:
  "\<exists>ys. note_list (phase_notes rand d i t g) = note_list g @ ys
     \<and> (\<forall>n\<in>set ys. time n = t \<and> \<not> hit n \<and> \<not> missed n \<and> hitTime n = None)"
  by (auto simp: phase_notes_def push_note_def Math_random_def Let_def split: prod.splits)

lemma beat_appends:
  "\<exists>ys. note_list (beat rand d i g) = note_list g @ ys
     \<and> (\<forall>n\<in>set ys. \<not> hit n \<and> \<not> missed n \<and> hitTime n = None)
     \<and> (d \<noteq> IMPOSSIBLE \<longrightarrow> (\<forall>n\<in>set ys. time n = real i * BEAT_TIME))"
proof -
  let ?t = "real i * BEAT_TIME"
  obtain r g1 where r: "Math_random rand g = (r, g1)" by (cases "Math_random rand g")
  have n1: "note_list g1 = note_list g" using r by (auto simp: Math_random_def)
  show ?thesis
  proof (cases "r < skipRate d")
    case True
    then show ?thesis using r n1 by (simp add: beat_def)
  next
    case False
    define g2 where "g2 = (if d = IMPOSSIBLE then sub_beats rand ?t g1 else g1)"
    define g3 where "g3 = g2\<lparr>generatedNoteCount := generatedNoteCount g2 + 1\<rparr>"
    have "\<exists>ys. note_list g3 = note_list g @ ys
        \<and> (\<forall>n\<in>set ys. \<not> hit n \<and> \<not> missed n \<and> hitTime n = None)
        \<and> (d \<noteq> IMPOSSIBLE \<longrightarrow> ys = [])"
      using sub_beats_appends [of rand ?t g1] n1 by (auto simp: g3_def g2_def)
    then obtain ys where ys: "note_list g3 = note_list g @ ys"
      "\<forall>n\<in>set ys. \<not> hit n \<and> \<not> missed n \<and> hitTime n = None"
      "d \<noteq> IMPOSSIBLE \<longrightarrow> ys = []"
      by blast
    have "\<exists>zs. note_list (beat rand d i g) = note_list g3 @ zs
        \<and> (\<forall>n\<in>set zs. time n = ?t \<and> \<not> hit n \<and> \<not> missed n \<and> hitTime n = None)"
      using False r gold_star_appends [of rand ?t g3] phase_notes_appends [of rand d i ?t g3]
      by (simp add: beat_def Let_def g3_def g2_def)
    then obtain zs where zs: "note_list (beat rand d i g) = note_list g3 @ zs"
      "\<forall>n\<in>set zs. time n = ?t \<and> \<not> hit n \<and> \<not> missed n \<and> hitTime n = None"
      by blast
    have "note_list (beat rand d i g) = note_list g @ (ys @ zs)" using ys zs by simp
    moreover have "\<forall>n\<in>set (ys @ zs). \<not> hit n \<and> \<not> missed n \<and> hitTime n = None"
      using ys zs by auto
    moreover have "d \<noteq> IMPOSSIBLE \<longrightarrow> (\<forall>n\<in>set (ys @ zs). time n = ?t)"
      using ys zs by auto
    ultimately show ?thesis by blast
  qed
qed

lemma fold_beat_appends:
  "\<exists>ys. note_list (fold (beat rand d) js g) = note_list g @ ys
     \<and> (\<forall>n\<in>set ys. \<not> hit n \<and> \<not> missed n \<and> hitTime n = None)"
proof (induction js arbitrary: g)
  case Nil
  then show ?case by simp
next
  case (Cons j js)
  obtain ys where ys: "note_list (beat rand d j g) = note_list g @ ys"
    "\<forall>n\<in>set ys. \<not> hit n \<and> \<not> missed n \<and> hitTime n = None"
    using beat_appends by blast
  obtain zs where zs:
    "note_list (fold (beat rand d) js (beat rand d j g)) = note_list (beat rand d j g) @ zs"
    "\<forall>n\<in>set zs. \<not> hit n \<and> \<not> missed n \<and> hitTime n = None"
    using Cons.IH by blast
  have "note_list (fold (beat rand d) (j # js) g) = note_list g @ (ys @ zs)"
    using ys zs by simp
  moreover have "\<forall>n\<in>set (ys @ zs). \<not> hit n \<and> \<not> missed n \<and> hitTime n = None"
    using ys zs by auto
  ultimately show ?case by blast
qed

lemma generateChart_fresh:
  assumes "n \<in> set (generateChart rand d)"
  shows "\<not> hit n \<and> \<not> missed n \<and> hitTime n = None"
proof -
  obtain ys where "emitted rand d = note_list initial_gen @ ys"
    "\<forall>n\<in>set ys. \<not> hit n \<and> \<not> missed n \<and> hitTime n = None"
    unfolding emitted_def using fold_beat_appends by blast
  then show ?thesis
    using assms by (simp add: generateChart_def initial_gen_def)
qed

lemma fold_beat_sorted:
  assumes "d \<noteq> IMPOSSIBLE" and "sorted js" and "sorted (map time (note_list g))"
    and "\<forall>n\<in>set (note_list g). \<forall>j\<in>set js. time n \<le> real j * BEAT_TIME"
  shows "sorted (map time (note_list (fold (beat rand d) js g)))"
  using assms(2-)
proof (induction js arbitrary: g)
  case Nil
  then show ?case by simp
next
  case (Cons j js)
  have b: "0 \<le> BEAT_TIME" by (simp add: BEAT_TIME_def SONG_BPM_def)
  obtain ys where ys: "note_list (beat rand d j g) = note_list g @ ys"
    "\<forall>n\<in>set ys. time n = real j * BEAT_TIME"
    using beat_appends [of rand d j g] assms(1) by blast
  have "sorted (map time ys)"
    using ys(2) by (induction ys) auto
  then have s: "sorted (map time (note_list (beat rand d j g)))"
    using Cons.prems ys by (auto simp: sorted_append)
  have "\<forall>n\<in>set (note_list (beat rand d j g)). \<forall>j'\<in>set js. time n \<le> real j' * BEAT_TIME"
  proof (intro ballI)
    fix n j'
    assume n: "n \<in> set (note_list (beat rand d j g))" and j': "j' \<in> set js"
    have "real j * BEAT_TIME \<le> real j' * BEAT_TIME"
      using Cons.prems(1) j' b by (simp add: mult_right_mono)
    then show "time n \<le> real j' * BEAT_TIME"
      using n j' ys Cons.prems(3) by auto
  qed
  then show ?case
    using Cons.IH [of "beat rand d j g"] Cons.prems(1) s by simp
qed

lemma sort_key_sorted_prefix:
  assumes "sorted (map f xs)" and "\<forall>x\<in>set xs. \<forall>y\<in>set ys. f x \<le> f y"
  shows "sort_key f (xs @ ys) = xs @ sort_key f ys"
  using assms
proof (induction xs)
  case Nil
  then show ?case by simp
next
  case (Cons x xs)
  then have "sort_key f (xs @ ys) = xs @ sort_key f ys" by simp
  moreover have "\<forall>z\<in>set (xs @ sort_key f ys). f x \<le> f z"
    using Cons.prems by auto
  ultimately show ?case by (simp add: insort_is_Cons)
qed

lemma generateChart_below_IMPOSSIBLE:
  assumes "d \<noteq> IMPOSSIBLE"
  shows "generateChart rand d = emitted rand d"
proof -
  have "sorted (map time (emitted rand d))"
    using fold_beat_sorted [OF assms, of "[4..<300]" initial_gen rand]
    by (simp add: emitted_def initial_gen_def del: upt_rec_numeral)
  then show ?thesis
    using sort_key_sorted_prefix [of time "emitted rand d" "[]"]
    by (simp add: generateChart_def)
qed

lemma emitted_prefix:
  assumes "4 \<le> k" and "k \<le> 300"
  shows "\<exists>ys. emitted rand d = note_list (fold (beat rand d) [4..<k] initial_gen) @ ys"
proof -
  have "[4..<300] = [4..<k] @ [k..<300]"
    using assms by (metis le_Suc_ex upt_add_eq_append)
  then show ?thesis
    using fold_beat_appends [of rand d "[k..<300]" "fold (beat rand d) [4..<k] initial_gen"]
    by (auto simp: emitted_def simp del: upt_rec_numeral)
qed

lemma easy_first_fifty:
  "map isGoldStar (note_list (fold (beat (\<lambda>_. 9/10) EASY) [4..<101] initial_gen))
     = replicate 25 False @ [True] @ replicate 24 False"
  by code_simp

text \<open>
  What the counter does: below IMPOSSIBLE, at a beat that survives the skip test and
  brings the counter to a multiple of 50, the body pushes the gold star and nothing else.
\<close>

lemma gold_star_when_counter_hits_fifty:
  assumes "\<not> rand (randomCalls g) < skipRate d" and "d \<noteq> IMPOSSIBLE"
    and "(generatedNoteCount g + 1) mod 50 = 0"
  shows "beat rand d i g
    = gold_star rand (real i * BEAT_TIME)
        (g\<lparr>randomCalls := randomCalls g + 1, generatedNoteCount := generatedNoteCount g + 1\<rparr>)"
  using assms by (simp add: beat_def Math_random_def Let_def)

text \<open>
  C9 (the code at the failing input). The comment of the gold-star check reads ``Every 50
  notes'' and the counter is called \<^verbatim>\<open>generatedNoteCount\<close>, but the counter is advanced
  once per beat that survives the skip test, whether the beat pushes no note, one note or
  several. On EASY with every random outcome 0.9 no beat is skipped and only the even
  beats push a note: of the first fifty notes of the returned chart the 26th is the gold
  star (pushed at beat 53, when the counter reads 50) and the 50th is an ordinary note.
\<close>

theorem C9_gold_star_is_not_every_fiftieth_note:
  "map isGoldStar (take 50 (generateChart (\<lambda>_. 9/10) EASY))
     = replicate 25 False @ [True] @ replicate 24 False"
proof -
  let ?xs = "note_list (fold (beat (\<lambda>_. 9/10) EASY) [4..<101] initial_gen)"
  obtain ys where ys: "emitted (\<lambda>_. 9/10) EASY = ?xs @ ys"
    using emitted_prefix [of 101 "\<lambda>_. 9/10" EASY] by auto
  have "length (map isGoldStar ?xs) = 50"
    by (simp only: easy_first_fifty) simp
  then have "take 50 (generateChart (\<lambda>_. 9/10) EASY) = ?xs"
    using ys by (simp add: generateChart_below_IMPOSSIBLE)
  then show ?thesis by (simp only: easy_first_fifty)
qed

text \<open>
  The sort is needed on IMPOSSIBLE: with every random outcome 0 the first beat pushes its
  three sub-beat notes (half, quarter and three quarters of a beat late) before the note
  on the beat.
\<close>

lemma impossible_first_beat:
  "map time (note_list (beat (\<lambda>_. 0) IMPOSSIBLE 4 initial_gen)) = [27/14, 51/28, 57/28, 12/7]"
  by (simp add: initial_gen_def beat_def sub_beats_def sub_beat_def Math_random_def push_note_def
     phase_notes_def gold_star_def BEAT_TIME_def SONG_BPM_def Let_def)

lemma impossible_emitted_unsorted: "\<not> sorted (map time (emitted (\<lambda>_. 0) IMPOSSIBLE))"
proof -
  obtain ys where "emitted (\<lambda>_. 0) IMPOSSIBLE
      = note_list (fold (beat (\<lambda>_. 0) IMPOSSIBLE) [4..<5] initial_gen) @ ys"
    using emitted_prefix [of 5 "\<lambda>_. 0" IMPOSSIBLE] by auto
  then have "map time (emitted (\<lambda>_. 0) IMPOSSIBLE) = [27/14, 51/28, 57/28, 12/7] @ map time ys"
    using impossible_first_beat by (simp del: upt_rec_numeral add: upt_conv_Cons)
  then show ?thesis by (simp add: sorted_append)
qed

text \<open>
  C4. For every difficulty and every outcome of the random choices the chart that
  \<^verbatim>\<open>generateChart\<close> returns is non-decreasing in \<open>time\<close>, also where the notes were
  pushed out of time order.
\<close>

theorem C4_chart_sorted_by_time: "sorted (map time (generateChart rand difficulty))"
  by (simp add: generateChart_def)

theorem C4_chart_sorted_by_time_witness:
  "\<not> sorted (map time (emitted (\<lambda>_. 0) IMPOSSIBLE))
   \<and> sorted (map time (generateChart (\<lambda>_. 0) IMPOSSIBLE))"
  using C4_chart_sorted_by_time [of "\<lambda>_. 0" IMPOSSIBLE] impossible_emitted_unsorted by simp

subsection \<open>The collision loop\<close>

lemma note_step_judge:
  "note_step p t hands i s =
     (let r = activeNotes s ! i; note = notesState s ! r
      in if hit note \<or> missed note then s
         else (case judge p t hands note of
                 Stay \<Rightarrow> s
               | Missed \<Rightarrow> resolve_miss r i s
               | HitAs tier \<Rightarrow> resolve_hit r i t tier s))"
  by (simp add: note_step_def judge_def Let_def)

lemma take_splice1: "take i (splice1 i xs) = take i xs"
  by (cases "i \<le> length xs") (simp_all add: splice1_def)

lemma note_step_take: "take i (activeNotes (note_step p t hands i s)) = take i (activeNotes s)"
  by (simp add: note_step_judge resolve_miss_def resolve_hit_def take_splice1 Let_def
      split: verdict.splits)

lemma note_step_nth_active:
  assumes "j < i"
  shows "activeNotes (note_step p t hands i s) ! j = activeNotes s ! j"
proof -
  have "take i (activeNotes (note_step p t hands i s)) ! j = take i (activeNotes s) ! j"
    by (simp only: note_step_take)
  then show ?thesis using assms by simp
qed

lemma note_step_length: "length (notesState (note_step p t hands i s)) = length (notesState s)"
  by (simp add: note_step_judge resolve_miss_def resolve_hit_def Let_def split: verdict.splits)

text \<open>The body at a position that holds another note leaves the note alone and fires
  nothing about it.\<close>

lemma note_step_other:
  assumes "activeNotes s ! i \<noteq> r"
  shows "notesState (note_step p t hands i s) ! r = notesState s ! r"
    and "\<exists>evs. events (note_step p t hands i s) = events s @ evs
           \<and> [ev \<leftarrow> evs. event_note ev = Some r] = []"
  using assms
  by (auto simp: note_step_judge resolve_miss_def resolve_hit_def Let_def split: verdict.splits)

text \<open>The body at a position that holds the note, resolved or not.\<close>

lemma note_step_resolved:
  assumes "activeNotes s ! i = r" and "hit (notesState s ! r) \<or> missed (notesState s ! r)"
  shows "note_step p t hands i s = s"
  using assms by (simp add: note_step_judge Let_def)

lemma note_step_unresolved:
  assumes "activeNotes s ! i = r" and "r < length (notesState s)"
    and "\<not> hit (notesState s ! r)" and "\<not> missed (notesState s ! r)"
  shows "notesState (note_step p t hands i s) ! r
           = settle t (judge p t hands (notesState s ! r)) (notesState s ! r)"
    and "events (note_step p t hands i s)
           = events s @ verdict_events r (judge p t hands (notesState s ! r))"
  using assms
  by (auto simp: note_step_judge resolve_miss_def resolve_hit_def Let_def split: verdict.splits)

lemma settle_resolved:
  "v \<noteq> Stay \<Longrightarrow> hit (settle t v note) \<or> missed (settle t v note)"
  by (cases v) simp_all

lemma verdict_events_about: "[ev \<leftarrow> verdict_events r v. event_note ev = Some r] = verdict_events r v"
  by (cases v) simp_all

text \<open>
  The whole loop, seen from one note of the chart: if the note is unresolved and on one
  of the positions the loop visits, it ends as the verdict says and the callbacks fired
  about it are the verdict's; otherwise it is untouched and nothing is fired about it.
\<close>

lemma note_loop_verdict:
  assumes "r < length (notesState s)"
  shows "notesState (note_loop p t hands n s) ! r
           = (if \<not> hit (notesState s ! r) \<and> \<not> missed (notesState s ! r)
                 \<and> (\<exists>j<n. activeNotes s ! j = r)
              then settle t (judge p t hands (notesState s ! r)) (notesState s ! r)
              else notesState s ! r)
         \<and> (\<exists>evs. events (note_loop p t hands n s) = events s @ evs
              \<and> [ev \<leftarrow> evs. event_note ev = Some r]
                  = (if \<not> hit (notesState s ! r) \<and> \<not> missed (notesState s ! r)
                        \<and> (\<exists>j<n. activeNotes s ! j = r)
                     then verdict_events r (judge p t hands (notesState s ! r))
                     else []))"
  using assms
proof (induction n arbitrary: s)
  case 0
  then show ?case by simp
next
  case (Suc i)
  let ?s1 = "note_step p t hands i s"
  let ?note = "notesState s ! r"
  let ?v = "judge p t hands ?note"
  have len: "r < length (notesState ?s1)"
    using Suc.prems by (simp add: note_step_length)
  have act: "(\<exists>j<i. activeNotes ?s1 ! j = r) = (\<exists>j<i. activeNotes s ! j = r)"
    by (auto simp: note_step_nth_active)
  note IH = Suc.IH [OF len]
  show ?case
  proof (cases "activeNotes s ! i = r")
    case False
    have same: "notesState ?s1 ! r = ?note"
      using note_step_other(1) [OF False] .
    obtain evs1 where evs1: "events ?s1 = events s @ evs1"
      "[ev \<leftarrow> evs1. event_note ev = Some r] = []"
      using note_step_other(2) [OF False] by blast
    note IH' = IH [unfolded same act]
    obtain evs2 where evs2: "events (note_loop p t hands i ?s1) = events ?s1 @ evs2"
      "[ev \<leftarrow> evs2. event_note ev = Some r]
         = (if \<not> hit ?note \<and> \<not> missed ?note \<and> (\<exists>j<i. activeNotes s ! j = r)
            then verdict_events r ?v else [])"
      using IH' by blast
    have ex: "(\<exists>j<Suc i. activeNotes s ! j = r) = (\<exists>j<i. activeNotes s ! j = r)"
      using False by (auto simp: less_Suc_eq)
    have "events (note_loop p t hands (Suc i) s) = events s @ (evs1 @ evs2)"
      using evs1 evs2 by simp
    moreover have "[ev \<leftarrow> evs1 @ evs2. event_note ev = Some r]
         = (if \<not> hit ?note \<and> \<not> missed ?note \<and> (\<exists>j<Suc i. activeNotes s ! j = r)
            then verdict_events r ?v else [])"
      using evs1 evs2 by (simp only: ex filter_append) simp
    moreover have "notesState (note_loop p t hands (Suc i) s) ! r
         = (if \<not> hit ?note \<and> \<not> missed ?note \<and> (\<exists>j<Suc i. activeNotes s ! j = r)
            then settle t ?v ?note else ?note)"
      using IH' by (simp only: ex note_loop.simps)
    ultimately show ?thesis by blast
  next
    case True
    have ex: "\<exists>j<Suc i. activeNotes s ! j = r" using True by blast
    show ?thesis
    proof (cases "hit ?note \<or> missed ?note")
      case True
      then have "?s1 = s" using \<open>activeNotes s ! i = r\<close> by (rule note_step_resolved[rotated])
      then show ?thesis using IH True by auto
    next
      case False
      then have unres: "\<not> hit ?note" "\<not> missed ?note" by simp_all
      have n1: "notesState ?s1 ! r = settle t ?v ?note"
        and e1: "events ?s1 = events s @ verdict_events r ?v"
        using note_step_unresolved [OF True Suc.prems unres] by simp_all
      show ?thesis
      proof (cases "?v = Stay")
        case True
        then have "notesState ?s1 ! r = ?note" "events ?s1 = events s"
          using n1 e1 by simp_all
        then show ?thesis using IH True unres ex by (auto simp: act)
      next
        case False
        then have res: "hit (notesState ?s1 ! r) \<or> missed (notesState ?s1 ! r)"
          using n1 settle_resolved by simp
        obtain evs2 where evs2: "events (note_loop p t hands i ?s1) = events ?s1 @ evs2"
          "[ev \<leftarrow> evs2. event_note ev = Some r] = []"
          using IH res by auto
        have "notesState (note_loop p t hands i ?s1) ! r = settle t ?v ?note"
          using IH res n1 by auto
        moreover have "events (note_loop p t hands (Suc i) s)
            = events s @ (verdict_events r ?v @ evs2)"
          using e1 evs2 by simp
        moreover have "[ev \<leftarrow> verdict_events r ?v @ evs2. event_note ev = Some r]
            = verdict_events r ?v"
          using evs2 by (simp add: verdict_events_about)
        ultimately show ?thesis using unres ex by (simp del: filter_append)
      qed
    qed
  qed
qed


subsection \<open>One frame\<close>

lemma spawn_loop_notesState: "notesState (spawn_loop spd t s) = notesState s"
proof (induction spd t s rule: spawn_loop.induct)
  case (1 spd t s)
  then show ?case by (subst spawn_loop.simps) simp
qed

lemma spawn_loop_events: "events (spawn_loop spd t s) = events s"
proof (induction spd t s rule: spawn_loop.induct)
  case (1 spd t s)
  then show ?case by (subst spawn_loop.simps) simp
qed

lemma note_loop_length: "length (notesState (note_loop p t hands n s)) = length (notesState s)"
  by (induction n arbitrary: s) (simp_all add: note_step_length)

lemma useFrame_length: "length (notesState (useFrame p audio hands s)) = length (notesState s)"
  by (simp add: useFrame_def note_loop_length spawn_loop_notesState Let_def split: option.splits)

text \<open>A frame that runs the collision loop, seen from one note of the chart.\<close>

lemma useFrame_verdict:
  assumes "sceneStatus p = PLAYING" and "\<not> ended a" and "r < length (notesState s)"
  shows "notesState (useFrame p (Some a) hands s) ! r
           = (if \<not> hit (notesState s ! r) \<and> \<not> missed (notesState s ! r)
                 \<and> r \<in> set (active_in_frame p a s)
              then settle (audioTime a) (judge p (audioTime a) hands (notesState s ! r))
                     (notesState s ! r)
              else notesState s ! r)
         \<and> (\<exists>evs. events (useFrame p (Some a) hands s) = events s @ evs
              \<and> [ev \<leftarrow> evs. event_note ev = Some r]
                  = (if \<not> hit (notesState s ! r) \<and> \<not> missed (notesState s ! r)
                        \<and> r \<in> set (active_in_frame p a s)
                     then verdict_events r (judge p (audioTime a) hands (notesState s ! r))
                     else []))"
proof -
  let ?s2 = "spawn_loop (noteSpeed p) (audioTime a) s"
  have u: "useFrame p (Some a) hands s
             = note_loop p (audioTime a) hands (length (activeNotes ?s2)) ?s2"
    using assms(1,2) by (simp add: useFrame_def Let_def)
  have m: "(\<exists>j<length (activeNotes ?s2). activeNotes ?s2 ! j = r) = (r \<in> set (active_in_frame p a s))"
    by (auto simp: active_in_frame_def in_set_conv_nth)
  have l: "r < length (notesState ?s2)"
    using assms(3) by (simp add: spawn_loop_notesState)
  show ?thesis
    using note_loop_verdict [OF l, of p "audioTime a" hands "length (activeNotes ?s2)"]
    unfolding u m spawn_loop_notesState spawn_loop_events .
qed

text \<open>
  C5. In a frame that runs the collision loop, an active unresolved note whose position
  is past the miss plane ends the frame missed and not hit, and the only callback fired
  about it is \<^verbatim>\<open>onNoteMiss\<close>, wherever the hands are.
\<close>

theorem C5_miss_plane_comes_before_hit_test:
  assumes "sceneStatus p = PLAYING" and "\<not> ended a"
    and "r < length (notesState s)" and "r \<in> set (active_in_frame p a s)"
    and "\<not> hit (notesState s ! r)" and "\<not> missed (notesState s ! r)"
    and "currentZ p (audioTime a) (notesState s ! r) > MISS_Z"
  shows "missed (notesState (useFrame p (Some a) hands s) ! r)
       \<and> \<not> hit (notesState (useFrame p (Some a) hands s) ! r)
       \<and> (\<exists>evs. events (useFrame p (Some a) hands s) = events s @ evs
            \<and> [ev \<leftarrow> evs. event_note ev = Some r] = [NoteMiss r])"
proof -
  have "judge p (audioTime a) hands (notesState s ! r) = Missed"
    using assms(7) by (simp add: judge_def)
  then show ?thesis
    using useFrame_verdict [OF assms(1-3), of hands] assms(4-6) by simp
qed


text \<open>Evaluating the concrete scenes.\<close>

lemma item_ultimate:
  "equippedItem ''ultimate_eudin''
     = shop_item ''ultimate_eudin'' ''Ultimate Admin Saber'' 99999 3 3 6"
  by (simp add: equippedItem_def SABER_CATALOG_def shop_item_def)

lemma active_scene_of: "active_in_frame p a (scene_of note) = [0]"
  by (simp add: active_in_frame_def scene_of_def spawn_loop.simps)

lemma hand_distance_at_note:
  "hand_distance (Some at_note) left_note = Some 0"
  "hand_distance (Some at_note) gold_note = Some 0"
  "hand_distance None note = None"
  by (simp_all add: hand_distance_def at_note_def left_note_def gold_note_def array_get_def
      LANE_X_POSITIONS_def LAYER_Y_POSITIONS_def LANE_WIDTH_def distXY_def)

lemma hitRadius_playing:
  "hitRadius (playing_with ''default'') = 12/10"
  "hitRadius (playing_with ''ultimate_eudin'') = 72/10"
  by (simp_all add: hitRadius_def playing_with_def item_default item_ultimate shop_item_def)

lemma in_hit_window_playing:
  "in_hit_window (playing_with ''default'') 1 left_note"
  "in_hit_window (playing_with ''default'') 1 gold_note"
  "in_hit_window (playing_with ''ultimate_eudin'') (10/7) left_note"
  "in_hit_window (playing_with ''ultimate_eudin'') (10/7) gold_note"
  by (simp_all add: in_hit_window_def currentZ_def zWindow_def playing_with_def item_default
      item_ultimate shop_item_def left_note_def gold_note_def PLAYER_Z_def)

lemma currentZ_playing:
  "currentZ (playing_with saberId) 1 left_note = 0"
  "currentZ (playing_with saberId) 1 gold_note = 0"
  "currentZ (playing_with saberId) (10/7) left_note = 6"
  "currentZ (playing_with saberId) (10/7) gold_note = 6"
  by (simp_all add: currentZ_def playing_with_def left_note_def gold_note_def PLAYER_Z_def)

lemma scene_of_simps:
  "notesState (scene_of note) = [note]" "events (scene_of note) = []"
  by (simp_all add: scene_of_def)

lemma audio_at_simps: "audioTime (audio_at t) = t" "ended (audio_at t) = False"
  by (simp_all add: audio_at_def)

lemma playing_with_simps: "sceneStatus (playing_with saberId) = PLAYING"
  by (simp add: playing_with_def)

lemma note_simps:
  "hit left_note = False" "missed left_note = False" "isGoldStar left_note = False"
  "note_type left_note = LeftHand"
  "hit gold_note = False" "missed gold_note = False" "isGoldStar gold_note = True"
  "note_type gold_note = LeftHand"
  by (simp_all add: left_note_def gold_note_def)

lemma hands_simps:
  "hand_left both_hands = Some at_note" "hand_right both_hands = Some at_note"
  "hand_left right_hand_only = None" "hand_right right_hand_only = Some at_note"
  "leftVelocity both_hands = at_rest"
  by (simp_all add: both_hands_def right_hand_only_def)

lemmas scene_simps = scene_of_simps audio_at_simps playing_with_simps note_simps hands_simps
  active_scene_of currentZ_playing hitRadius_playing in_hit_window_playing hand_distance_at_note
  within_radius_def correctHandPos_def wrongHandPos_def MISS_Z_def

theorem C5_miss_plane_comes_before_hit_test_witness:
  "in_hit_window (playing_with ''ultimate_eudin'') (10/7) left_note
   \<and> within_radius (correctHandPos both_hands left_note) left_note
        (hitRadius (playing_with ''ultimate_eudin''))
   \<and> currentZ (playing_with ''ultimate_eudin'') (10/7) left_note > MISS_Z
   \<and> missed (notesState (useFrame (playing_with ''ultimate_eudin'') (Some (audio_at (10/7)))
        both_hands (scene_of left_note)) ! 0)
   \<and> \<not> hit (notesState (useFrame (playing_with ''ultimate_eudin'') (Some (audio_at (10/7)))
        both_hands (scene_of left_note)) ! 0)"
proof -
  have h: "sceneStatus (playing_with ''ultimate_eudin'') = PLAYING"
    "\<not> ended (audio_at (10/7))"
    "0 < length (notesState (scene_of left_note))"
    "0 \<in> set (active_in_frame (playing_with ''ultimate_eudin'') (audio_at (10/7)) (scene_of left_note))"
    "\<not> hit (notesState (scene_of left_note) ! 0)"
    "\<not> missed (notesState (scene_of left_note) ! 0)"
    "currentZ (playing_with ''ultimate_eudin'') (audioTime (audio_at (10/7)))
       (notesState (scene_of left_note) ! 0) > MISS_Z"
    by (simp_all add: scene_simps)
  have w: "within_radius (correctHandPos both_hands left_note) left_note
        (hitRadius (playing_with ''ultimate_eudin''))"
    "currentZ (playing_with ''ultimate_eudin'') (10/7) left_note > MISS_Z"
    by (simp_all add: scene_simps)
  from C5_miss_plane_comes_before_hit_test [OF h, of both_hands] in_hit_window_playing(3) w
  show ?thesis by simp
qed

text \<open>
  The hit window ends at \<open>z = 1.25 \<times> hitWindow\<close> and the miss plane is at \<open>z = 5\<close>: a
  note inside the hit window is past the miss plane only with a saber whose
  \<open>hitWindow\<close> exceeds 4, and the catalog has one, the Ultimate Admin Saber.
\<close>

lemma hit_window_before_miss_plane:
  assumes "hitWindow (perks (equippedSaber p)) \<le> 4" and "in_hit_window p t note"
  shows "\<not> currentZ p t note > MISS_Z"
  using assms by (simp add: in_hit_window_def zWindow_def PLAYER_Z_def MISS_Z_def)

lemma catalog_wide_hit_window:
  "[item_id item. item \<leftarrow> SABER_CATALOG, hitWindow (perks item) > 4] = [''ultimate_eudin'']"
  by (simp add: SABER_CATALOG_def shop_item_def)

text \<open>
  C7, as stated, fails: the claim has every active gold-star note inside the hit window
  with a hand within the hit radius resolved as a GOLD\_STAR hit. With the Ultimate Admin
  Saber (\<open>hitWindow\<close> 6) the hit window is \<open>-15 < z < 7.5\<close> and the hit radius 7.2. An
  unresolved gold-star note at \<open>z = 6\<close>, with both hands exactly on it, is inside the hit
  window and within the radius of either hand; the miss rule of the same tick comes first,
  and the frame leaves the note missed and not hit, with \<^verbatim>\<open>onNoteMiss\<close> as the only
  callback about it.
\<close>

theorem C7_gold_star_past_miss_plane_is_missed:
  "isGoldStar gold_note
   \<and> hit gold_note = False
   \<and> missed gold_note = False
   \<and> active_in_frame (playing_with ''ultimate_eudin'') (audio_at (10/7)) (scene_of gold_note) = [0]
   \<and> in_hit_window (playing_with ''ultimate_eudin'') (10/7) gold_note
   \<and> within_radius (hand_left both_hands) gold_note (hitRadius (playing_with ''ultimate_eudin''))
   \<and> within_radius (hand_right both_hands) gold_note (hitRadius (playing_with ''ultimate_eudin''))
   \<and> missed (notesState (useFrame (playing_with ''ultimate_eudin'') (Some (audio_at (10/7)))
        both_hands (scene_of gold_note)) ! 0)
   \<and> hit (notesState (useFrame (playing_with ''ultimate_eudin'') (Some (audio_at (10/7)))
        both_hands (scene_of gold_note)) ! 0) = False
   \<and> [ev \<leftarrow> events (useFrame (playing_with ''ultimate_eudin'') (Some (audio_at (10/7)))
        both_hands (scene_of gold_note)). event_note ev = Some 0] = [NoteMiss 0]"
proof -
  have h: "sceneStatus (playing_with ''ultimate_eudin'') = PLAYING"
    "\<not> ended (audio_at (10/7))"
    "0 < length (notesState (scene_of gold_note))"
    by (simp_all add: scene_simps)
  have j: "judge (playing_with ''ultimate_eudin'') (audioTime (audio_at (10/7))) both_hands
             (notesState (scene_of gold_note) ! 0) = Missed"
    by (simp add: judge_def scene_simps)
  from useFrame_verdict [OF h, of both_hands] j
  show ?thesis by (simp add: scene_simps)
qed

text \<open>
  C7, amended. In a frame that runs the collision loop, an active unresolved gold-star
  note that the miss rule leaves alone (its position is not past the miss plane) and that
  is inside the hit window is resolved as a hit of tier GOLD\_STAR as soon as the left or
  the right hand is within the hit radius: nothing is asked of the note's hand, of the
  velocities or of the cut direction.
\<close>

theorem C7_gold_star_either_hand:
  assumes "sceneStatus p = PLAYING" and "\<not> ended a"
    and "r < length (notesState s)" and "r \<in> set (active_in_frame p a s)"
    and "\<not> hit (notesState s ! r)" and "\<not> missed (notesState s ! r)"
    and "\<not> currentZ p (audioTime a) (notesState s ! r) > MISS_Z"
    and "in_hit_window p (audioTime a) (notesState s ! r)"
    and "isGoldStar (notesState s ! r)"
    and "within_radius (hand_left hands) (notesState s ! r) (hitRadius p)
         \<or> within_radius (hand_right hands) (notesState s ! r) (hitRadius p)"
  shows "hit (notesState (useFrame p (Some a) hands s) ! r)
       \<and> hitTime (notesState (useFrame p (Some a) hands s) ! r) = Some (audioTime a)
       \<and> \<not> missed (notesState (useFrame p (Some a) hands s) ! r)
       \<and> (\<exists>evs. events (useFrame p (Some a) hands s) = events s @ evs
            \<and> [ev \<leftarrow> evs. event_note ev = Some r] = [NoteHit r GOLD_STAR])"
proof -
  have "judge p (audioTime a) hands (notesState s ! r) = HitAs GOLD_STAR"
    using assms(7-10) by (auto simp: judge_def correctHandPos_def wrongHandPos_def Let_def)
  then show ?thesis
    using useFrame_verdict [OF assms(1-3), of hands] assms(4-6) by simp
qed

theorem C7_gold_star_either_hand_witness:
  "isGoldStar gold_note
   \<and> note_type gold_note = LeftHand
   \<and> hand_left right_hand_only = None
   \<and> within_radius (hand_right right_hand_only) gold_note (hitRadius (playing_with ''default''))
   \<and> hit (notesState (useFrame (playing_with ''default'') (Some (audio_at 1))
        right_hand_only (scene_of gold_note)) ! 0)
   \<and> hitTime (notesState (useFrame (playing_with ''default'') (Some (audio_at 1))
        right_hand_only (scene_of gold_note)) ! 0) = Some 1
   \<and> (\<exists>evs. events (useFrame (playing_with ''default'') (Some (audio_at 1))
        right_hand_only (scene_of gold_note)) = evs
        \<and> [ev \<leftarrow> evs. event_note ev = Some 0] = [NoteHit 0 GOLD_STAR])"
proof -
  have h: "sceneStatus (playing_with ''default'') = PLAYING"
    "\<not> ended (audio_at 1)"
    "0 < length (notesState (scene_of gold_note))"
    "0 \<in> set (active_in_frame (playing_with ''default'') (audio_at 1) (scene_of gold_note))"
    "\<not> hit (notesState (scene_of gold_note) ! 0)"
    "\<not> missed (notesState (scene_of gold_note) ! 0)"
    "\<not> currentZ (playing_with ''default'') (audioTime (audio_at 1))
       (notesState (scene_of gold_note) ! 0) > MISS_Z"
    "in_hit_window (playing_with ''default'') (audioTime (audio_at 1))
       (notesState (scene_of gold_note) ! 0)"
    "isGoldStar (notesState (scene_of gold_note) ! 0)"
    "within_radius (hand_left right_hand_only) (notesState (scene_of gold_note) ! 0)
       (hitRadius (playing_with ''default''))
     \<or> within_radius (hand_right right_hand_only) (notesState (scene_of gold_note) ! 0)
       (hitRadius (playing_with ''default''))"
    by (simp_all add: scene_simps)
  have w: "within_radius (hand_right right_hand_only) gold_note (hitRadius (playing_with ''default''))"
    by (simp add: scene_simps)
  from C7_gold_star_either_hand [OF h] w
  show ?thesis by (simp add: scene_simps)
qed

text \<open>The tier of a cut by the correct hand is never the wrong-saber tier.\<close>

lemma tier_chain_not_wrong_saber:
  "(if a then PERFECT else if b then BAD else if c then BAD else if d then PERFECT
    else if e then GREAT else if f then GOOD else OK) \<noteq> WRONG_SABER"
  by simp

lemma cut_tier_not_penalty_hand: "cut_tier p hands note \<noteq> WRONG_SABER"
  unfolding cut_tier_def Let_def by (rule tier_chain_not_wrong_saber)

text \<open>
  C8, as stated, fails: the claim has every active normal note inside the hit window with
  only the wrong hand within the hit radius resolved as a WRONG\_SABER hit, not left
  unresolved. With the Ultimate Admin Saber an unresolved left-hand note at \<open>z = 6\<close> is
  inside the hit window; the right hand is exactly on it and the left hand is not
  tracked. The miss rule of the same tick comes first: the frame leaves the note missed
  and not hit, and the only callback about it is \<^verbatim>\<open>onNoteMiss\<close>, which drains the health by
  the difficulty's \<open>healthDrain\<close> and resets combo and multiplier.
\<close>

theorem C8_wrong_hand_past_miss_plane_is_missed:
  "isGoldStar left_note = False
   \<and> hit left_note = False
   \<and> missed left_note = False
   \<and> active_in_frame (playing_with ''ultimate_eudin'') (audio_at (10/7)) (scene_of left_note) = [0]
   \<and> in_hit_window (playing_with ''ultimate_eudin'') (10/7) left_note
   \<and> within_radius (wrongHandPos right_hand_only left_note) left_note
        (hitRadius (playing_with ''ultimate_eudin''))
   \<and> within_radius (correctHandPos right_hand_only left_note) left_note
        (hitRadius (playing_with ''ultimate_eudin'')) = False
   \<and> missed (notesState (useFrame (playing_with ''ultimate_eudin'') (Some (audio_at (10/7)))
        right_hand_only (scene_of left_note)) ! 0)
   \<and> hit (notesState (useFrame (playing_with ''ultimate_eudin'') (Some (audio_at (10/7)))
        right_hand_only (scene_of left_note)) ! 0) = False
   \<and> [ev \<leftarrow> events (useFrame (playing_with ''ultimate_eudin'') (Some (audio_at (10/7)))
        right_hand_only (scene_of left_note)). event_note ev = Some 0] = [NoteMiss 0]
   \<and> health (deliver 1 (equippedItem ''ultimate_eudin'') (DIFFICULTY_CONFIG MEDIUM)
        (NoteMiss 0) fresh_game) = 88"
proof -
  have h: "sceneStatus (playing_with ''ultimate_eudin'') = PLAYING"
    "\<not> ended (audio_at (10/7))"
    "0 < length (notesState (scene_of left_note))"
    by (simp_all add: scene_simps)
  have j: "judge (playing_with ''ultimate_eudin'') (audioTime (audio_at (10/7))) right_hand_only
             (notesState (scene_of left_note) ! 0) = Missed"
    by (simp add: judge_def scene_simps)
  have g: "health (deliver 1 (equippedItem ''ultimate_eudin'') (DIFFICULTY_CONFIG MEDIUM)
        (NoteMiss 0) fresh_game) = 88"
    by (simp add: handleNoteMiss_def fresh_game_def startGame_def initial_game_def Let_def)
  from useFrame_verdict [OF h, of right_hand_only] j g
  show ?thesis by (simp add: scene_simps del: deliver.simps DIFFICULTY_CONFIG.simps)
qed

text \<open>
  C8, amended. In a frame that runs the collision loop, take an active unresolved normal
  note that the miss rule leaves alone (its position is not past the miss plane) and that
  is inside the hit window, with the wrong hand
  within the hit radius. If the correct hand is not within the radius, the note is
  resolved as a hit of tier WRONG\_SABER; if it is, the note is resolved as a cut of the
  correct hand, whose tier is never WRONG\_SABER. A WRONG\_SABER hit delivered to the App
  adds no points and no coins and takes 5 off the health (not below 0).
\<close>

theorem C8_wrong_hand_is_penalised:
  assumes "sceneStatus p = PLAYING" and "\<not> ended a"
    and "r < length (notesState s)" and "r \<in> set (active_in_frame p a s)"
    and "\<not> hit (notesState s ! r)" and "\<not> missed (notesState s ! r)"
    and "\<not> currentZ p (audioTime a) (notesState s ! r) > MISS_Z"
    and "in_hit_window p (audioTime a) (notesState s ! r)"
    and "\<not> isGoldStar (notesState s ! r)"
    and "within_radius (wrongHandPos hands (notesState s ! r)) (notesState s ! r) (hitRadius p)"
  shows "hit (notesState (useFrame p (Some a) hands s) ! r)
       \<and> hitTime (notesState (useFrame p (Some a) hands s) ! r) = Some (audioTime a)
       \<and> \<not> missed (notesState (useFrame p (Some a) hands s) ! r)
       \<and> (\<exists>evs. events (useFrame p (Some a) hands s) = events s @ evs
            \<and> [ev \<leftarrow> evs. event_note ev = Some r]
                = [NoteHit r (if within_radius (correctHandPos hands (notesState s ! r))
                                  (notesState s ! r) (hitRadius p)
                              then cut_tier p hands (notesState s ! r) else WRONG_SABER)])
       \<and> cut_tier p hands (notesState s ! r) \<noteq> WRONG_SABER
       \<and> score (deliver m item diffConfig (NoteHit r WRONG_SABER) g) = score g
       \<and> coins (deliver m item diffConfig (NoteHit r WRONG_SABER) g) = coins g
       \<and> health (deliver m item diffConfig (NoteHit r WRONG_SABER) g)
           = min 100 (max 0 (health g - 5))"
proof -
  have "judge p (audioTime a) hands (notesState s ! r)
      = HitAs (if within_radius (correctHandPos hands (notesState s ! r))
                    (notesState s ! r) (hitRadius p)
               then cut_tier p hands (notesState s ! r) else WRONG_SABER)"
    using assms(7-10) by (simp add: judge_def Let_def)
  then have "hit (notesState (useFrame p (Some a) hands s) ! r)
       \<and> hitTime (notesState (useFrame p (Some a) hands s) ! r) = Some (audioTime a)
       \<and> \<not> missed (notesState (useFrame p (Some a) hands s) ! r)
       \<and> (\<exists>evs. events (useFrame p (Some a) hands s) = events s @ evs
            \<and> [ev \<leftarrow> evs. event_note ev = Some r]
                = [NoteHit r (if within_radius (correctHandPos hands (notesState s ! r))
                                  (notesState s ! r) (hitRadius p)
                              then cut_tier p hands (notesState s ! r) else WRONG_SABER)])"
    using useFrame_verdict [OF assms(1-3), of hands] assms(4-6) by simp
  moreover have "score (deliver m item diffConfig (NoteHit r WRONG_SABER) g) = score g
       \<and> coins (deliver m item diffConfig (NoteHit r WRONG_SABER) g) = coins g
       \<and> health (deliver m item diffConfig (NoteHit r WRONG_SABER) g)
           = min 100 (max 0 (health g - 5))"
    by (simp add: handleNoteHit_def rewards_def combo_logic_other_fields)
  ultimately show ?thesis using cut_tier_not_penalty_hand by blast
qed


lemma cut_tier_both_hands_at_rest:
  "cut_tier (playing_with ''default'') both_hands left_note = BAD"
  by (simp add: cut_tier_def playing_with_def item_default shop_item_def hands_simps note_simps
      at_rest_def vec_length_def Let_def)

theorem C8_wrong_hand_is_penalised_witness:
  "\<not> within_radius (correctHandPos right_hand_only left_note) left_note
        (hitRadius (playing_with ''default''))
   \<and> within_radius (wrongHandPos right_hand_only left_note) left_note
        (hitRadius (playing_with ''default''))
   \<and> hit (notesState (useFrame (playing_with ''default'') (Some (audio_at 1))
        right_hand_only (scene_of left_note)) ! 0)
   \<and> [ev \<leftarrow> events (useFrame (playing_with ''default'') (Some (audio_at 1))
        right_hand_only (scene_of left_note)). event_note ev = Some 0] = [NoteHit 0 WRONG_SABER]
   \<and> within_radius (correctHandPos both_hands left_note) left_note
        (hitRadius (playing_with ''default''))
   \<and> within_radius (wrongHandPos both_hands left_note) left_note
        (hitRadius (playing_with ''default''))
   \<and> [ev \<leftarrow> events (useFrame (playing_with ''default'') (Some (audio_at 1))
        both_hands (scene_of left_note)). event_note ev = Some 0] = [NoteHit 0 BAD]
   \<and> score (deliver 1 (equippedItem ''default'') (DIFFICULTY_CONFIG MEDIUM)
        (NoteHit 0 WRONG_SABER) fresh_game) = 0
   \<and> coins (deliver 1 (equippedItem ''default'') (DIFFICULTY_CONFIG MEDIUM)
        (NoteHit 0 WRONG_SABER) fresh_game) = 0
   \<and> health (deliver 1 (equippedItem ''default'') (DIFFICULTY_CONFIG MEDIUM)
        (NoteHit 0 WRONG_SABER) fresh_game) = 95"
proof -
  have h: "sceneStatus (playing_with ''default'') = PLAYING"
    "\<not> ended (audio_at 1)"
    "0 < length (notesState (scene_of left_note))"
    "0 \<in> set (active_in_frame (playing_with ''default'') (audio_at 1) (scene_of left_note))"
    "\<not> hit (notesState (scene_of left_note) ! 0)"
    "\<not> missed (notesState (scene_of left_note) ! 0)"
    "\<not> currentZ (playing_with ''default'') (audioTime (audio_at 1))
       (notesState (scene_of left_note) ! 0) > MISS_Z"
    "in_hit_window (playing_with ''default'') (audioTime (audio_at 1))
       (notesState (scene_of left_note) ! 0)"
    "\<not> isGoldStar (notesState (scene_of left_note) ! 0)"
    by (simp_all add: scene_simps)
  have w1: "within_radius (wrongHandPos right_hand_only (notesState (scene_of left_note) ! 0))
       (notesState (scene_of left_note) ! 0) (hitRadius (playing_with ''default''))"
    and w2: "within_radius (wrongHandPos both_hands (notesState (scene_of left_note) ! 0))
       (notesState (scene_of left_note) ! 0) (hitRadius (playing_with ''default''))"
    by (simp_all add: scene_simps)
  have g: "score fresh_game = 0" "coins fresh_game = 0" "health fresh_game = 100"
    by (simp_all add: fresh_game_def startGame_def initial_game_def)
  from C8_wrong_hand_is_penalised [OF h w1, of 1 "equippedItem ''default''"
      "DIFFICULTY_CONFIG MEDIUM" fresh_game]
    C8_wrong_hand_is_penalised [OF h w2, of 1 "equippedItem ''default''"
      "DIFFICULTY_CONFIG MEDIUM" fresh_game]
    g cut_tier_both_hands_at_rest
  show ?thesis by (simp add: scene_simps del: deliver.simps DIFFICULTY_CONFIG.simps)
qed

subsection \<open>A run of frames\<close>

lemma settle_keeps_consistent:
  assumes "\<not> hit note" and "\<not> missed note" and "consistent note"
  shows "consistent (settle t v note)"
  using assms by (cases v) (simp_all add: consistent_def)

lemma useFrame_note_cases:
  assumes "k < length (notesState s)"
  shows "notesState (useFrame p audio hands s) ! k = notesState s ! k
       \<or> (\<not> hit (notesState s ! k) \<and> \<not> missed (notesState s ! k)
           \<and> (\<exists>t v. notesState (useFrame p audio hands s) ! k = settle t v (notesState s ! k)))"
proof (cases audio)
  case None
  then show ?thesis by (simp add: useFrame_def)
next
  case (Some a)
  show ?thesis
  proof (cases "sceneStatus p = PLAYING \<and> \<not> ended a")
    case False
    then show ?thesis using Some by (auto simp: useFrame_def)
  next
    case True
    then have "notesState (useFrame p (Some a) hands s) ! k
        = (if \<not> hit (notesState s ! k) \<and> \<not> missed (notesState s ! k)
              \<and> k \<in> set (active_in_frame p a s)
           then settle (audioTime a) (judge p (audioTime a) hands (notesState s ! k))
                  (notesState s ! k)
           else notesState s ! k)"
      using useFrame_verdict [of p a k s hands] assms by blast
    then show ?thesis using Some by (cases "\<not> hit (notesState s ! k) \<and> \<not> missed (notesState s ! k)
              \<and> k \<in> set (active_in_frame p a s)") auto
  qed
qed

lemma useFrame_keeps_consistent:
  assumes "k < length (notesState s)" and "consistent (notesState s ! k)"
  shows "consistent (notesState (useFrame p audio hands s) ! k)"
  using useFrame_note_cases [OF assms(1), of p audio hands] assms(2) settle_keeps_consistent
  by auto

lemma useFrame_keeps_resolved:
  assumes "k < length (notesState s)"
    and "hit (notesState s ! k) \<or> missed (notesState s ! k)"
  shows "notesState (useFrame p audio hands s) ! k = notesState s ! k"
  using useFrame_note_cases [OF assms(1), of p audio hands] assms(2) by auto

lemma run_frames_append: "run_frames (fs @ gs) s = run_frames gs (run_frames fs s)"
  by (induction fs arbitrary: s) auto

lemma run_frames_length: "length (notesState (run_frames fs s)) = length (notesState s)"
  by (induction fs arbitrary: s) (auto simp: useFrame_length)

lemma run_frames_keeps_consistent:
  assumes "k < length (notesState s)" and "consistent (notesState s ! k)"
  shows "consistent (notesState (run_frames fs s) ! k)"
  using assms
proof (induction fs arbitrary: s)
  case Nil
  then show ?case by simp
next
  case (Cons f fs)
  obtain p audio hands where f: "f = (p, audio, hands)" by (cases f)
  have "k < length (notesState (useFrame p audio hands s))"
    using Cons.prems(1) by (simp add: useFrame_length)
  then show ?case
    using Cons.IH [of "useFrame p audio hands s"]
      useFrame_keeps_consistent [OF Cons.prems, of p audio hands] f
    by simp
qed

lemma run_frames_keeps_resolved:
  assumes "k < length (notesState s)"
    and "hit (notesState s ! k) \<or> missed (notesState s ! k)"
  shows "notesState (run_frames fs s) ! k = notesState s ! k"
  using assms
proof (induction fs arbitrary: s)
  case Nil
  then show ?case by simp
next
  case (Cons f fs)
  obtain p audio hands where f: "f = (p, audio, hands)" by (cases f)
  have same: "notesState (useFrame p audio hands s) ! k = notesState s ! k"
    using useFrame_keeps_resolved [OF Cons.prems, of p audio hands] .
  have "k < length (notesState (useFrame p audio hands s))"
    using Cons.prems(1) by (simp add: useFrame_length)
  then show ?case
    using Cons.IH [of "useFrame p audio hands s"] Cons.prems(2) same f by simp
qed

text \<open>A session starts from a generated chart, whose notes are fresh and so consistent.\<close>

lemma start_scene_generated_consistent:
  assumes "k < length (notesState (start_scene (generateChart rand d)))"
  shows "consistent (notesState (start_scene (generateChart rand d)) ! k)"
  using generateChart_fresh [of "generateChart rand d ! k" rand d] assms
  by (simp add: start_scene_def consistent_def)

text \<open>
  C3. Take a note of the chart whose flags are consistent at some point of a session
  (not both \<open>hit\<close> and \<open>missed\<close>, and \<open>hitTime\<close> set exactly when \<open>hit\<close> is; a freshly
  generated note is so). After any run of frames, whatever the props, the audio and the
  hands of each frame, the flags are still consistent, and once the note is resolved no
  further frame changes anything of it: it is resolved at most once.
\<close>

theorem C3_notes_resolve_at_most_once:
  assumes "k < length (notesState s)"
    and "\<not> (hit (notesState s ! k) \<and> missed (notesState s ! k))"
    and "hit (notesState s ! k) = (hitTime (notesState s ! k) \<noteq> None)"
  shows "\<not> (hit (notesState (run_frames fs s) ! k) \<and> missed (notesState (run_frames fs s) ! k))
       \<and> hit (notesState (run_frames fs s) ! k)
           = (hitTime (notesState (run_frames fs s) ! k) \<noteq> None)
       \<and> (hit (notesState (run_frames fs s) ! k) \<or> missed (notesState (run_frames fs s) ! k)
            \<longrightarrow> notesState (run_frames (fs @ gs) s) ! k = notesState (run_frames fs s) ! k)"
proof -
  have "k < length (notesState (run_frames fs s))"
    using assms(1) by (simp add: run_frames_length)
  then have "hit (notesState (run_frames fs s) ! k) \<or> missed (notesState (run_frames fs s) ! k)
      \<longrightarrow> notesState (run_frames (fs @ gs) s) ! k = notesState (run_frames fs s) ! k"
    using run_frames_keeps_resolved [of k "run_frames fs s" gs]
    by (simp add: run_frames_append)
  moreover have "consistent (notesState s ! k)"
    using assms(2,3) by (simp add: consistent_def)
  then have "consistent (notesState (run_frames fs s) ! k)"
    using run_frames_keeps_consistent [OF assms(1)] by blast
  ultimately show ?thesis unfolding consistent_def by blast
qed

lemma judge_wrong_hand_example:
  "judge (playing_with ''default'') 1 right_hand_only left_note = HitAs WRONG_SABER"
  by (simp add: judge_def scene_simps Let_def)

lemma useFrame_wrong_hand_example:
  "notesState (useFrame (playing_with ''default'') (Some (audio_at 1)) right_hand_only
      (scene_of left_note)) ! 0 = left_note\<lparr>hit := True, hitTime := Some 1\<rparr>"
  using useFrame_verdict [of "playing_with ''default''" "audio_at 1" 0 "scene_of left_note"
      right_hand_only]
  by (simp add: scene_simps judge_wrong_hand_example)

theorem C3_notes_resolve_at_most_once_witness:
  "hit (notesState (run_frames
          [(playing_with ''default'', Some (audio_at 1), right_hand_only)] (scene_of left_note)) ! 0)
   \<and> hitTime (notesState (run_frames
          [(playing_with ''default'', Some (audio_at 1), right_hand_only)] (scene_of left_note)) ! 0)
         = Some 1
   \<and> \<not> missed (notesState (run_frames
          [(playing_with ''default'', Some (audio_at 1), right_hand_only)] (scene_of left_note)) ! 0)
   \<and> notesState (run_frames
          ([(playing_with ''default'', Some (audio_at 1), right_hand_only)]
           @ [(playing_with ''ultimate_eudin'', Some (audio_at 2), both_hands)])
          (scene_of left_note)) ! 0
       = notesState (run_frames
          [(playing_with ''default'', Some (audio_at 1), right_hand_only)] (scene_of left_note)) ! 0"
proof -
  have h: "0 < length (notesState (scene_of left_note))"
    "\<not> (hit (notesState (scene_of left_note) ! 0) \<and> missed (notesState (scene_of left_note) ! 0))"
    "hit (notesState (scene_of left_note) ! 0) = (hitTime (notesState (scene_of left_note) ! 0) \<noteq> None)"
    by (simp_all add: scene_simps) (simp add: left_note_def)
  have e: "notesState (run_frames
          [(playing_with ''default'', Some (audio_at 1), right_hand_only)] (scene_of left_note)) ! 0
        = left_note\<lparr>hit := True, hitTime := Some 1\<rparr>"
    by (simp add: useFrame_wrong_hand_example)
  from C3_notes_resolve_at_most_once [OF h,
      of "[(playing_with ''default'', Some (audio_at 1), right_hand_only)]"
         "[(playing_with ''ultimate_eudin'', Some (audio_at 2), both_hands)]"] e
  show ?thesis by (simp add: note_simps)
qed

end
